theory Spec2Isabelle
  imports Complex_Main
begin

section \<open>JavaScript strings and numbers\<close>

text \<open>
  A JavaScript string is a sequence of code units; the model uses \<^typ>\<open>string\<close>, so it
  covers the code units below 256. \<open>length\<close> counts code units, as the source's
  \<open>.length\<close> does. JavaScript numbers that hold line numbers, counts and scores are
  integers far below \<open>2^53\<close> and are modelled as \<^typ>\<open>int\<close>; the two metrics the source
  computes with a real division are modelled in exact rationals.
\<close>

definition isWhiteSpace :: "char \<Rightarrow> bool" where
  "isWhiteSpace c =
     (c \<in> set [CHR 0x09, CHR 0x0A, CHR 0x0B, CHR 0x0C, CHR 0x0D, CHR 0x20, CHR 0xA0])"

text \<open>\<open>s.startsWith(t)\<close> and \<open>s.endsWith(t)\<close>.\<close>

fun startsWith :: "string \<Rightarrow> string \<Rightarrow> bool" where
  "startsWith s [] = True"
| "startsWith [] (c # cs) = False"
| "startsWith (x # xs) (c # cs) = (x = c \<and> startsWith xs cs)"

definition endsWith :: "string \<Rightarrow> string \<Rightarrow> bool" where
  "endsWith s t = startsWith (rev s) (rev t)"

text \<open>\<open>s.includes(t)\<close>.\<close>

fun includes_str :: "string \<Rightarrow> string \<Rightarrow> bool" where
  "includes_str [] t = (t = [])"
| "includes_str (c # cs) t = (startsWith (c # cs) t \<or> includes_str cs t)"

definition trimStart :: "string \<Rightarrow> string" where
  "trimStart s = dropWhile isWhiteSpace s"

definition trim :: "string \<Rightarrow> string" where
  "trim s = rev (dropWhile isWhiteSpace (rev (dropWhile isWhiteSpace s)))"

text \<open>\<open>s.split(d)\<close> for a one-character separator: never empty, \<open>''''.split(d) = ['''']\<close>.\<close>

fun split :: "char \<Rightarrow> string \<Rightarrow> string list" where
  "split d [] = [[]]"
| "split d (c # cs) =
     (if c = d then [] # split d cs
      else (case split d cs of [] \<Rightarrow> [[c]] | l # ls \<Rightarrow> (c # l) # ls))"

fun join :: "string \<Rightarrow> string list \<Rightarrow> string" where
  "join sep [] = []"
| "join sep [x] = x"
| "join sep (x # y # ys) = x @ sep @ join sep (y # ys)"

definition toLowerCase :: "string \<Rightarrow> string" where
  "toLowerCase s =
     map (\<lambda>c. let n = (of_char c :: nat) in
            if (65 \<le> n \<and> n \<le> 90) \<or> (192 \<le> n \<and> n \<le> 222 \<and> n \<noteq> 215)
            then char_of (n + 32) else c) s"

text \<open>\<open>array.pop()\<close> on the result of a \<open>split\<close>, which is never empty.\<close>

definition pop :: "string list \<Rightarrow> string" where
  "pop xs = (case rev xs of [] \<Rightarrow> [] | x # _ \<Rightarrow> x)"

text \<open>\<open>line.search(/\S/)\<close>: the index of the first character that is not white space, or \<open>-1\<close>.\<close>

definition searchNonSpace :: "string \<Rightarrow> int" where
  "searchNonSpace s =
     (let n = length (takeWhile isWhiteSpace s) in if n = length s then - 1 else int n)"

text \<open>\<open>Buffer.byteLength(content, 'utf-8')\<close>: one byte for a code unit below 128
  (its top bit is clear), two bytes up to 255.\<close>

definition byteLength :: "string \<Rightarrow> int" where
  "byteLength s = sum_list (map (\<lambda>c. if digit7 c then 2 else 1) s)"

text \<open>\<open>(line.match(/{/g) || []).length\<close>: the occurrences of one character.\<close>

definition countChar :: "char \<Rightarrow> string \<Rightarrow> int" where
  "countChar c s = int (length (filter (\<lambda>x. x = c) s))"

text \<open>Decimal rendering of a non-negative integer inside a template literal.\<close>

fun digits :: "nat \<Rightarrow> nat \<Rightarrow> string" where
  "digits 0 n = []"
| "digits (Suc fuel) n =
     (if n < 10 then [char_of (48 + n)]
      else digits fuel (n div 10) @ [char_of (48 + n mod 10)])"

definition showNat :: "nat \<Rightarrow> string" where
  "showNat n = digits (Suc n) n"

text \<open>
  \<open>(bytes / 1024).toFixed(2)\<close>: the quotient is an exact double, and \<open>toFixed\<close> rounds
  it to the nearest hundredth, the larger one on a tie.
\<close>

definition toFixed2KB :: "int \<Rightarrow> string" where
  "toFixed2KB bytes =
     (let h = nat ((bytes * 100 + 512) div 1024);
          frac = h mod 100
      in showNat (h div 100) @ ''.'' @ (if frac < 10 then ''0'' else '''') @ showNat frac)"

section \<open>Issues\<close>

datatype severity = Critical | Error | Warning | Info

text \<open>
  The issue objects the analyzers push. The multi-dimensional analyzer sets \<open>category\<close>
  and (except on documentation suggestions) \<open>autoFixable\<close>; the single-pass analyzer
  sets neither.
\<close>

record issue =
  type :: string
  category :: "string option"
  severity :: severity
  line :: int
  message :: string
  suggestion :: string
  autoFixable :: "bool option"

text \<open>\<open>lines.forEach((line, index) => ...)\<close>: the issues pushed, in order.\<close>

definition forEachLine :: "string list \<Rightarrow> (string \<Rightarrow> nat \<Rightarrow> issue list) \<Rightarrow> issue list" where
  "forEachLine lines f = concat (map (\<lambda>(index, line). f line index) (List.enumerate 0 lines))"

section \<open>Scores of the multi-dimensional analyzer\<close>

record dimension =
  issues :: "issue list"
  score :: int

text \<open>The inner \<open>calculateScore\<close> of \<open>calculateScores\<close>; \<open>maxDeduction\<close> defaults to 50.\<close>

definition calculateScore :: "issue list \<Rightarrow> int \<Rightarrow> int" where
  "calculateScore iss maxDeduction =
     (let score = fold (\<lambda>issue score.
                    if severity issue = Critical then score - 15
                    else if severity issue = Error then score - 10
                    else if severity issue = Warning then score - 5
                    else if severity issue = Info then score - 1
                    else score) iss 100
      in max (100 - maxDeduction) score)"

section \<open>The JavaScript runtime and the parsers\<close>

text \<open>
  The regular expressions of the source, one constructor per literal. What a pattern
  matches is decided by the JavaScript regular-expression engine, which is not code of
  this repository: the engine is a parameter of the model, and every theorem below holds
  for each behaviour of it.
\<close>

datatype regex =
    RxVar               \<comment> \<open>\<open>/\bvar\s+/\<close>\<close>
  | RxLooseEq           \<comment> \<open>\<open>/[^=!><]={2}[^=]/\<close>\<close>
  | RxConsole           \<comment> \<open>\<open>/console\.(log|debug|info|warn)/\<close>\<close>
  | RxConsoleError      \<comment> \<open>\<open>/console\.(log|debug|info|warn|error)/\<close>\<close>
  | RxPrint             \<comment> \<open>\<open>/\bprint\s*\(/\<close>\<close>
  | RxApiKey            \<comment> \<open>\<open>/api[_-]?key\s*=\s*['"]\w{20,}['"]/i\<close>\<close>
  | RxApiSecret         \<comment> \<open>\<open>/api[_-]?secret\s*=\s*['"]\w{20,}['"]/i\<close>\<close>
  | RxPassword          \<comment> \<open>\<open>/password\s*=\s*['"]\w+['"]/i\<close>\<close>
  | RxToken             \<comment> \<open>\<open>/token\s*=\s*['"]\w{20,}['"]/i\<close>\<close>
  | RxSecret            \<comment> \<open>\<open>/secret\s*=\s*['"]\w{20,}['"]/i\<close>\<close>
  | RxAwsAccessKey      \<comment> \<open>\<open>/aws[_-]?access[_-]?key\s*=\s*['"]\w+['"]/i\<close>\<close>
  | RxEval              \<comment> \<open>\<open>/\beval\s*\(/\<close>\<close>
  | RxInnerHTML         \<comment> \<open>\<open>/\.innerHTML\s*=/\<close>\<close>
  | RxDocumentWrite     \<comment> \<open>\<open>/document\.write\s*\(/\<close>\<close>
  | RxReDoS             \<comment> \<open>\<open>/\/.*\+.*\+.*\//\<close>\<close>
  | RxExec              \<comment> \<open>\<open>/\bexec\s*\(/\<close>\<close>
  | RxSqlSelect         \<comment> \<open>\<open>/execute\s*\(\s*['"]\s*SELECT.*%s/i\<close>\<close>
  | RxFunctionDecl      \<comment> \<open>\<open>/function\s+\w+|const\s+\w+\s*=\s*\(/\<close>\<close>
  | RxImportLine        \<comment> \<open>\<open>/^import\s+.+$/gm\<close>\<close>
  | RxNamedExport       \<comment> \<open>\<open>/export\s+(const|let|var|function|class)/g\<close>\<close>
  | RxMagicNumber       \<comment> \<open>\<open>/\b\d{3,}\b/g\<close>\<close>
  | RxTodo              \<comment> \<open>\<open>/\/\/\s*(TODO|FIXME|HACK|XXX|BUG)/i\<close>\<close>
  | RxEmptyCatch        \<comment> \<open>\<open>/catch\s*\([^)]*\)\s*{\s*}/g\<close>\<close>
  | RxFunctionHead      \<comment> \<open>\<open>/^(export\s+)?(async\s+)?function\s+\w+|^(export\s+)?const\s+\w+\s*=\s*(async\s*)?\(/\<close>\<close>
  | RxBranchDoc         \<comment> \<open>\<open>/if|else|for|while|switch|case|\?|&&|\|\|/g\<close>\<close>
  | RxBranchMetric      \<comment> \<open>\<open>/if|else|for|while|case|catch|\?|&&|\|\|/g\<close>\<close>
  | RxDeclaration       \<comment> \<open>\<open>/(?:const|let|var)\s+(\w+)/g\<close>\<close>
  | RxHexColor          \<comment> \<open>\<open>/#[0-9a-fA-F]{3,6}/\<close>\<close>
  | RxWord string       \<comment> \<open>\<open>new RegExp(`\\b${varName}\\b`, 'g')\<close>\<close>

text \<open>The \<open>loc\<close> of an error thrown by a parser, and the error itself.\<close>

record position =
  pos_line :: int
  pos_column :: int

record js_error =
  err_message :: string
  err_loc :: "position option"

text \<open>
  \<open>regexTest\<close> is \<open>pattern.test(s)\<close>, and the truth value of \<open>s.match(pattern)\<close>;
  \<open>regexMatchAll\<close> is \<open>s.match(pattern)\<close> for a pattern with the \<open>g\<close> flag, the empty
  list where the source gets \<open>null\<close>. \<open>acornParse\<close> and \<open>jsonParse\<close> are
  \<open>acorn.parse(content, ...)\<close> and \<open>JSON.parse(content)\<close>, whose value the source
  discards: \<open>None\<close> when the call returns, the error when it throws.
\<close>

record runtime =
  regexTest :: "regex \<Rightarrow> string \<Rightarrow> bool"
  regexMatchAll :: "regex \<Rightarrow> string \<Rightarrow> string list"
  acornParse :: "string \<Rightarrow> js_error option"
  jsonParse :: "string \<Rightarrow> js_error option"

section \<open>The multi-dimensional analyzer\<close>

text \<open>
  The \<open>analysis\<close> object. The source has three fields called \<open>issues\<close>: a scored
  dimension's (\<open>issues\<close>), the documentation dimension's (\<open>docIssues\<close>) and the combined
  list (\<open>allIssues\<close>). The documentation dimension has no score. \<open>metrics\<close> is \<open>{}\<close>
  until \<open>calculateMetrics\<close> sets it.
\<close>

record documentation =
  docIssues :: "issue list"
  suggestions :: "issue list"

record metrics =
  totalLines :: int
  codeLines :: int
  commentLines :: int
  fileSize :: int
  complexityScore :: int
  maintainabilityIndex :: rat

record analysis =
  linting :: dimension
  security :: dimension
  architecture :: dimension
  quality :: dimension
  documentation :: documentation
  metrics :: "metrics option"
  allIssues :: "issue list"

text \<open>\<open>analysis.<dimension>.issues.push(...)\<close>, for the issues pushed in a row.\<close>

definition pushLinting :: "issue list \<Rightarrow> analysis \<Rightarrow> analysis" where
  "pushLinting new a = a\<lparr>linting := (linting a)\<lparr>issues := issues (linting a) @ new\<rparr>\<rparr>"

definition pushSecurity :: "issue list \<Rightarrow> analysis \<Rightarrow> analysis" where
  "pushSecurity new a = a\<lparr>security := (security a)\<lparr>issues := issues (security a) @ new\<rparr>\<rparr>"

definition pushArchitecture :: "issue list \<Rightarrow> analysis \<Rightarrow> analysis" where
  "pushArchitecture new a =
     a\<lparr>architecture := (architecture a)\<lparr>issues := issues (architecture a) @ new\<rparr>\<rparr>"

definition pushQuality :: "issue list \<Rightarrow> analysis \<Rightarrow> analysis" where
  "pushQuality new a = a\<lparr>quality := (quality a)\<lparr>issues := issues (quality a) @ new\<rparr>\<rparr>"

definition pushDocIssues :: "issue list \<Rightarrow> analysis \<Rightarrow> analysis" where
  "pushDocIssues new a =
     a\<lparr>documentation := (documentation a)\<lparr>docIssues := docIssues (documentation a) @ new\<rparr>\<rparr>"

definition pushSuggestions :: "issue list \<Rightarrow> analysis \<Rightarrow> analysis" where
  "pushSuggestions new a =
     a\<lparr>documentation := (documentation a)\<lparr>suggestions := suggestions (documentation a) @ new\<rparr>\<rparr>"

subsection \<open>Linting\<close>

definition lintJavaScript :: "runtime \<Rightarrow> string \<Rightarrow> string list \<Rightarrow> analysis \<Rightarrow> analysis" where
  "lintJavaScript rt content lines a =
     (let a1 = pushLinting (forEachLine lines (\<lambda>line index.
            if regexTest rt RxVar line
            then [\<lparr>type = ''linting'', category = Some ''best-practice'', severity = Warning,
                   line = int index + 1,
                   message = ''Use of deprecated \"var\" keyword'',
                   suggestion = ''Replace \"var\" with \"const\" or \"let\" for better scoping'',
                   autoFixable = Some True\<rparr>]
            else [])) a;
          a2 = pushLinting (forEachLine lines (\<lambda>line index.
            if regexTest rt RxLooseEq line
            then [\<lparr>type = ''linting'', category = Some ''best-practice'', severity = Warning,
                   line = int index + 1,
                   message = ''Use of loose equality (==)'',
                   suggestion = ''Use strict equality (===) to avoid type coercion'',
                   autoFixable = Some True\<rparr>]
            else [])) a1;
          a3 = pushLinting (forEachLine lines (\<lambda>line index.
            if regexTest rt RxConsole line
            then [\<lparr>type = ''linting'', category = Some ''cleanup'', severity = Info,
                   line = int index + 1,
                   message = ''Console statement detected'',
                   suggestion = ''Remove console statements before production deployment'',
                   autoFixable = Some True\<rparr>]
            else [])) a2
      in (case acornParse rt content of
            None \<Rightarrow> a3
          | Some error \<Rightarrow>
              (case err_loc error of
                 None \<Rightarrow> a3
               | Some loc \<Rightarrow>
                   pushLinting
                     [\<lparr>type = ''linting'', category = Some ''syntax'', severity = Error,
                       line = pos_line loc,
                       message = ''Syntax error: '' @ err_message error,
                       suggestion = ''Fix the syntax error to ensure code can be parsed'',
                       autoFixable = Some False\<rparr>] a3)))"

definition lintPython :: "runtime \<Rightarrow> string list \<Rightarrow> analysis \<Rightarrow> analysis" where
  "lintPython rt lines a =
     pushLinting (forEachLine lines (\<lambda>line index.
         (if includes_str line [CHR 0x09]
          then [\<lparr>type = ''linting'', category = Some ''style'', severity = Warning,
                 line = int index + 1,
                 message = ''Tab character used for indentation'',
                 suggestion = ''Use 4 spaces for indentation (PEP 8)'',
                 autoFixable = Some True\<rparr>]
          else []) @
         (if regexTest rt RxPrint line
          then [\<lparr>type = ''linting'', category = Some ''cleanup'', severity = Info,
                 line = int index + 1,
                 message = ''Print statement detected'',
                 suggestion = ''Use proper logging instead of print statements'',
                 autoFixable = Some False\<rparr>]
          else []))) a"

definition lintCSS :: "string list \<Rightarrow> analysis \<Rightarrow> analysis" where
  "lintCSS lines a =
     pushLinting (forEachLine lines (\<lambda>line index.
         if includes_str line ''!important''
         then [\<lparr>type = ''linting'', category = Some ''best-practice'', severity = Warning,
                line = int index + 1,
                message = ''Use of !important detected'',
                suggestion = ''Avoid !important; refactor CSS specificity instead'',
                autoFixable = Some False\<rparr>]
         else [])) a"

definition performLintingAnalysis ::
  "runtime \<Rightarrow> string \<Rightarrow> string list \<Rightarrow> string \<Rightarrow> analysis \<Rightarrow> analysis" where
  "performLintingAnalysis rt content lines fileExtension a =
     (let isJavaScript = fileExtension \<in> set [''js'', ''jsx'', ''ts'', ''tsx''];
          isPython = (fileExtension = ''py'');
          isCSS = fileExtension \<in> set [''css'', ''scss'', ''sass''];
          a1 = pushLinting (forEachLine lines (\<lambda>line index.
            if endsWith line '' '' \<or> endsWith line [CHR 0x09]
            then [\<lparr>type = ''linting'', category = Some ''style'', severity = Info,
                   line = int index + 1,
                   message = ''Trailing whitespace detected'',
                   suggestion = ''Remove trailing whitespace at the end of the line'',
                   autoFixable = Some True\<rparr>]
            else [])) a;
          a2 = pushLinting (forEachLine lines (\<lambda>line index.
            if length line > 120
            then [\<lparr>type = ''linting'', category = Some ''style'', severity = Info,
                   line = int index + 1,
                   message = ''Line too long ('' @ showNat (length line) @ '' characters)'',
                   suggestion =
                     ''Break this line into multiple lines for better readability (max 120 chars)'',
                   autoFixable = Some False\<rparr>]
            else [])) a1
      in if isJavaScript then lintJavaScript rt content lines a2
         else if isPython then lintPython rt lines a2
         else if isCSS then lintCSS lines a2
         else a2)"

subsection \<open>Security\<close>

definition securityCheckJavaScript ::
  "runtime \<Rightarrow> string \<Rightarrow> string list \<Rightarrow> analysis \<Rightarrow> analysis" where
  "securityCheckJavaScript rt content lines a =
     (let a1 = pushSecurity (forEachLine lines (\<lambda>line index.
            if regexTest rt RxEval line
            then [\<lparr>type = ''security'', category = Some ''code-injection'', severity = Critical,
                   line = int index + 1,
                   message = ''Use of eval() detected - code injection risk'',
                   suggestion =
                     ''Avoid eval(); use safer alternatives like JSON.parse() or Function constructor'',
                   autoFixable = Some False\<rparr>]
            else [])) a;
          a2 = pushSecurity (forEachLine lines (\<lambda>line index.
            if regexTest rt RxInnerHTML line
            then [\<lparr>type = ''security'', category = Some ''xss'', severity = Warning,
                   line = int index + 1,
                   message = ''Use of innerHTML - XSS vulnerability risk'',
                   suggestion = ''Use textContent or sanitize HTML input to prevent XSS'',
                   autoFixable = Some False\<rparr>]
            else [])) a1;
          a3 = pushSecurity (forEachLine lines (\<lambda>line index.
            if regexTest rt RxDocumentWrite line
            then [\<lparr>type = ''security'', category = Some ''xss'', severity = Warning,
                   line = int index + 1,
                   message = ''Use of document.write() - security and performance risk'',
                   suggestion = ''Use modern DOM manipulation methods instead'',
                   autoFixable = Some False\<rparr>]
            else [])) a2
      in if regexMatchAll rt RxReDoS content \<noteq> []
         then pushSecurity (forEachLine lines (\<lambda>line index.
            if regexTest rt RxReDoS line
            then [\<lparr>type = ''security'', category = Some ''redos'', severity = Warning,
                   line = int index + 1,
                   message = ''Potentially unsafe regex - ReDoS vulnerability'',
                   suggestion = ''Review regex pattern for catastrophic backtracking'',
                   autoFixable = Some False\<rparr>]
            else [])) a3
         else a3)"

definition securityCheckPython ::
  "runtime \<Rightarrow> string \<Rightarrow> string list \<Rightarrow> analysis \<Rightarrow> analysis" where
  "securityCheckPython rt content lines a =
     (let a1 = pushSecurity (forEachLine lines (\<lambda>line index.
            if regexTest rt RxExec line
            then [\<lparr>type = ''security'', category = Some ''code-injection'', severity = Critical,
                   line = int index + 1,
                   message = ''Use of exec() - code injection risk'',
                   suggestion = ''Avoid exec(); use safer alternatives'',
                   autoFixable = Some False\<rparr>]
            else [])) a
      in pushSecurity (forEachLine lines (\<lambda>line index.
            if regexTest rt RxSqlSelect line
            then [\<lparr>type = ''security'', category = Some ''sql-injection'', severity = Critical,
                   line = int index + 1,
                   message = ''Potential SQL injection vulnerability'',
                   suggestion = ''Use parameterized queries instead of string formatting'',
                   autoFixable = Some False\<rparr>]
            else [])) a1)"

definition secretPatterns :: "regex list" where
  "secretPatterns = [RxApiKey, RxApiSecret, RxPassword, RxToken, RxSecret, RxAwsAccessKey]"

definition performSecurityAnalysis ::
  "runtime \<Rightarrow> string \<Rightarrow> string list \<Rightarrow> string \<Rightarrow> analysis \<Rightarrow> analysis" where
  "performSecurityAnalysis rt content lines fileExtension a =
     (let isJavaScript = fileExtension \<in> set [''js'', ''jsx'', ''ts'', ''tsx''];
          isPython = (fileExtension = ''py'');
          a1 = (if isJavaScript then securityCheckJavaScript rt content lines a
                else if isPython then securityCheckPython rt content lines a
                else a)
      in pushSecurity (forEachLine lines (\<lambda>line index.
            concat (map (\<lambda>pattern.
              if regexTest rt pattern line
              then [\<lparr>type = ''security'', category = Some ''secrets'', severity = Critical,
                     line = int index + 1,
                     message = ''Potential hardcoded secret detected'',
                     suggestion = ''Move secrets to environment variables or secure vault'',
                     autoFixable = Some False\<rparr>]
              else []) secretPatterns))) a1)"

subsection \<open>Architecture\<close>

definition performArchitectureAnalysis ::
  "runtime \<Rightarrow> string \<Rightarrow> string list \<Rightarrow> string \<Rightarrow> analysis \<Rightarrow> analysis" where
  "performArchitectureAnalysis rt content lines fileExtension a =
     (let a1 = (if byteLength content > 500 * 1024
                then pushArchitecture
                  [\<lparr>type = ''architecture'', category = Some ''modularity'', severity = Warning,
                    line = 1,
                    message = ''Large file size: '' @ toFixed2KB (byteLength content) @ '' KB'',
                    suggestion = ''Consider splitting into smaller, more focused modules'',
                    autoFixable = Some False\<rparr>] a
                else a);
          functionCount = length (regexMatchAll rt RxFunctionDecl content);
          a2 = (if functionCount > 20
                then pushArchitecture
                  [\<lparr>type = ''architecture'', category = Some ''modularity'', severity = Info,
                    line = 1,
                    message = ''High function count: '' @ showNat functionCount,
                    suggestion = ''Consider splitting this file into multiple modules'',
                    autoFixable = Some False\<rparr>] a1
                else a1);
          imports = regexMatchAll rt RxImportLine content;
          a3 = (if length imports > 15
                then pushArchitecture
                  [\<lparr>type = ''architecture'', category = Some ''dependencies'', severity = Info,
                    line = 1,
                    message = ''High number of imports: '' @ showNat (length imports),
                    suggestion =
                      ''Consider reducing dependencies or splitting into focused modules'',
                    autoFixable = Some False\<rparr>] a2
                else a2);
          hasDefaultExport = includes_str content ''export default'';
          hasNamedExports = regexMatchAll rt RxNamedExport content;
          a4 = (if hasDefaultExport \<and> hasNamedExports \<noteq> [] \<and> length hasNamedExports > 5
                then pushArchitecture
                  [\<lparr>type = ''architecture'', category = Some ''module-design'', severity = Info,
                    line = 1,
                    message = ''Mixed default and named exports'',
                    suggestion = ''Consider using only named exports for better tree-shaking'',
                    autoFixable = Some False\<rparr>] a3
                else a3)
      in pushArchitecture (forEachLine lines (\<lambda>line index.
            let leadingSpaces = searchNonSpace line in
            if leadingSpaces > 24
            then [\<lparr>type = ''architecture'', category = Some ''complexity'', severity = Warning,
                   line = int index + 1,
                   message = ''Deeply nested code (>6 levels)'',
                   suggestion =
                     ''Refactor to reduce nesting - extract functions or use early returns'',
                   autoFixable = Some False\<rparr>]
            else [])) a4)"

subsection \<open>Quality\<close>

text \<open>
  The duplicate-block loop \<open>for (let i = 0; i < lines.length - 5; i++)\<close>: the state is
  the \<open>codeBlocks\<close> map and the issues pushed so far.
\<close>

definition duplicateStep ::
  "string list \<Rightarrow> nat \<Rightarrow> (string \<rightharpoonup> int) \<times> issue list \<Rightarrow> (string \<rightharpoonup> int) \<times> issue list" where
  "duplicateStep lines i st =
     (let codeBlocks = fst st; out = snd st;
          block = trim (join [CHR 0x0A] (take 5 (drop i lines)))
      in if length block > 50 \<and> \<not> startsWith block ''//'' \<and> \<not> startsWith block ''/*''
         then ((codeBlocks(block \<mapsto> int i + 1)),
               (if codeBlocks block \<noteq> None
                then out @
                  [\<lparr>type = ''quality'', category = Some ''duplication'', severity = Warning,
                    line = int i + 1,
                    message = ''Duplicate code block detected'',
                    suggestion = ''Extract duplicate code into a reusable function'',
                    autoFixable = Some False\<rparr>]
                else out))
         else st)"

definition duplicateBlocks :: "string list \<Rightarrow> issue list" where
  "duplicateBlocks lines =
     snd (fold (duplicateStep lines) [0 ..< length lines - 5] (Map.empty, []))"

text \<open>
  The long-function loop: the state is \<open>functionStart\<close> (initially \<open>-1\<close>),
  \<open>braceCount\<close> and the issues pushed so far.
\<close>

definition longFunctionStep ::
  "runtime \<Rightarrow> nat \<times> string \<Rightarrow> int \<times> int \<times> issue list \<Rightarrow> int \<times> int \<times> issue list" where
  "longFunctionStep rt il st =
     (let index = int (fst il); line = snd il;
          functionStart0 = fst st; braceCount0 = fst (snd st); out = snd (snd st);
          functionStart = (if regexTest rt RxFunctionDecl line then index else functionStart0);
          braceCount1 = (if regexTest rt RxFunctionDecl line then 0 else braceCount0);
          braceCount = braceCount1 + countChar (CHR ''{'') line - countChar (CHR ''}'') line
      in if functionStart \<ge> 0 \<and> braceCount = 0 \<and> index - functionStart > 50
         then (- 1, braceCount, out @
                  [\<lparr>type = ''quality'', category = Some ''complexity'', severity = Warning,
                    line = functionStart + 1,
                    message = ''Long function: '' @ showNat (nat (index - functionStart)) @ '' lines'',
                    suggestion = ''Break down into smaller, more focused functions'',
                    autoFixable = Some False\<rparr>])
         else (functionStart, braceCount, out))"

definition longFunctions :: "runtime \<Rightarrow> string list \<Rightarrow> issue list" where
  "longFunctions rt lines =
     snd (snd (fold (longFunctionStep rt) (List.enumerate 0 lines) (- 1, 0, [])))"

definition performQualityAnalysis ::
  "runtime \<Rightarrow> string \<Rightarrow> string list \<Rightarrow> string \<Rightarrow> analysis \<Rightarrow> analysis" where
  "performQualityAnalysis rt content lines fileExtension a =
     (let a1 = pushQuality (forEachLine lines (\<lambda>line index.
            let magicNumbers = regexMatchAll rt RxMagicNumber line in
            if magicNumbers \<noteq> [] \<and> \<not> includes_str line ''//'' \<and> \<not> includes_str line ''const''
            then [\<lparr>type = ''quality'', category = Some ''maintainability'', severity = Info,
                   line = int index + 1,
                   message = ''Magic number detected'',
                   suggestion = ''Extract magic numbers into named constants'',
                   autoFixable = Some False\<rparr>]
            else [])) a;
          a2 = pushQuality (duplicateBlocks lines) a1;
          a3 = pushQuality (forEachLine lines (\<lambda>line index.
            if regexTest rt RxTodo line
            then [\<lparr>type = ''quality'', category = Some ''technical-debt'', severity = Info,
                   line = int index + 1,
                   message = ''TODO/FIXME comment found'',
                   suggestion = ''Address this comment or create a task to track it'',
                   autoFixable = Some False\<rparr>]
            else [])) a2;
          a4 = (if regexTest rt RxEmptyCatch content
                then pushQuality (forEachLine lines (\<lambda>line index.
                  if includes_str line ''catch'' \<and> index + 1 < length lines
                     \<and> lines ! (index + 1) \<noteq> [] \<and> trim (lines ! (index + 1)) = ''}''
                  then [\<lparr>type = ''quality'', category = Some ''error-handling'',
                         severity = Warning,
                         line = int index + 1,
                         message = ''Empty catch block'',
                         suggestion = ''Handle errors appropriately or at least log them'',
                         autoFixable = Some False\<rparr>]
                  else [])) a3
                else a3)
      in pushQuality (longFunctions rt lines) a4)"

subsection \<open>Documentation\<close>

definition performDocumentationAnalysis ::
  "runtime \<Rightarrow> string \<Rightarrow> string list \<Rightarrow> string \<Rightarrow> analysis \<Rightarrow> analysis" where
  "performDocumentationAnalysis rt content lines fileExtension a =
     (let isCode = fileExtension \<in> set [''js'', ''jsx'', ''ts'', ''tsx'', ''py'', ''java'']
      in if \<not> isCode then a
         else
          (let hasFileComment = (startsWith (trimStart content) ''/**''
                                  \<or> startsWith (trimStart content) ''\"\"\"'');
               a1 = (if \<not> hasFileComment
                     then pushSuggestions
                       [\<lparr>type = ''documentation'', category = Some ''file-header'',
                         severity = Info, line = 1,
                         message = ''Missing file-level documentation'',
                         suggestion =
                           ''Add a file-level comment describing the purpose and contents of this file'',
                         autoFixable = None\<rparr>] a
                     else a);
               a2 = pushDocIssues (forEachLine lines (\<lambda>line index.
                 let isFunctionDeclaration = regexTest rt RxFunctionHead line in
                 if isFunctionDeclaration
                 then (let prevLine = (if index > 0 then trim (lines ! (index - 1)) else []);
                           hasDocComment = (startsWith prevLine ''/**''
                                             \<or> startsWith prevLine ''\"\"\"'')
                       in if \<not> hasDocComment \<and> \<not> includes_str line ''= () =>''
                          then [\<lparr>type = ''documentation'', category = Some ''function-docs'',
                                 severity = Info, line = int index + 1,
                                 message = ''Function lacks documentation'',
                                 suggestion =
                                   ''Add JSDoc/docstring to describe parameters, return value, and purpose'',
                                 autoFixable = Some False\<rparr>]
                          else [])
                 else [])) a1
           in pushSuggestions (forEachLine lines (\<lambda>line index.
                 let complexity = length (regexMatchAll rt RxBranchDoc line) in
                 if complexity > 3
                 then (let hasComment = (index > 0
                                          \<and> startsWith (trim (lines ! (index - 1))) ''//'')
                       in if \<not> hasComment
                          then [\<lparr>type = ''documentation'', category = Some ''code-clarity'',
                                 severity = Info, line = int index + 1,
                                 message = ''Complex logic without explanation'',
                                 suggestion = ''Add a comment explaining the logic flow'',
                                 autoFixable = None\<rparr>]
                          else [])
                 else [])) a2))"

subsection \<open>Metrics and scores\<close>

text \<open>
  \<open>avgLineLength\<close> and \<open>maintainabilityIndex\<close> are doubles in the source; here they
  are the exact rationals the doubles approximate.
\<close>

definition calculateMetrics :: "runtime \<Rightarrow> string \<Rightarrow> string list \<Rightarrow> analysis \<Rightarrow> analysis" where
  "calculateMetrics rt content lines a =
     (let codeLinesN = int (length (filter (\<lambda>l. trim l \<noteq> [] \<and> \<not> startsWith (trim l) ''//'') lines));
          complexityKeywords = int (length (regexMatchAll rt RxBranchMetric content));
          complexity = min 100 (complexityKeywords * 2);
          avgLineLength = (if codeLinesN > 0
                           then rat_of_int (int (length content)) / rat_of_int codeLinesN
                           else 0)
      in a\<lparr>metrics := Some
           \<lparr>totalLines = int (length lines),
            codeLines = codeLinesN,
            commentLines = int (length (filter (\<lambda>l. startsWith (trim l) ''//''
                                                      \<or> startsWith (trim l) ''*'') lines)),
            fileSize = byteLength content,
            complexityScore = complexity,
            maintainabilityIndex =
              max 0 (min 100 (100 - rat_of_int complexity / 2 - avgLineLength / 5))\<rparr>\<rparr>)"

definition calculateScores :: "analysis \<Rightarrow> analysis" where
  "calculateScores a =
     (let a1 = a\<lparr>linting := (linting a)\<lparr>score := calculateScore (issues (linting a)) 50\<rparr>\<rparr>;
          a2 = a1\<lparr>security := (security a1)\<lparr>score := calculateScore (issues (security a1)) 100\<rparr>\<rparr>;
          a3 = a2\<lparr>architecture :=
                  (architecture a2)\<lparr>score := calculateScore (issues (architecture a2)) 50\<rparr>\<rparr>
      in a3\<lparr>quality := (quality a3)\<lparr>score := calculateScore (issues (quality a3)) 50\<rparr>\<rparr>)"

subsection \<open>The entry point\<close>

definition initialAnalysis :: analysis where
  "initialAnalysis =
     \<lparr>linting = \<lparr>issues = [], score = 100\<rparr>,
      security = \<lparr>issues = [], score = 100\<rparr>,
      architecture = \<lparr>issues = [], score = 100\<rparr>,
      quality = \<lparr>issues = [], score = 100\<rparr>,
      documentation = \<lparr>docIssues = [], suggestions = []\<rparr>,
      metrics = None,
      allIssues = []\<rparr>"

definition analyzeCodeMultiDimensional :: "runtime \<Rightarrow> string \<Rightarrow> string \<Rightarrow> analysis" where
  "analyzeCodeMultiDimensional rt content fileName =
     (let lines = split (CHR 0x0A) content;
          fileExtension = toLowerCase (pop (split (CHR ''.'') fileName));
          a1 = performLintingAnalysis rt content lines fileExtension initialAnalysis;
          a2 = performSecurityAnalysis rt content lines fileExtension a1;
          a3 = performArchitectureAnalysis rt content lines fileExtension a2;
          a4 = performQualityAnalysis rt content lines fileExtension a3;
          a5 = performDocumentationAnalysis rt content lines fileExtension a4;
          a6 = calculateMetrics rt content lines a5;
          a7 = a6\<lparr>allIssues :=
                  issues (linting a6) @ issues (security a6) @ issues (architecture a6)
                  @ issues (quality a6) @ docIssues (documentation a6)\<rparr>
      in calculateScores a7)"

section \<open>The single-pass analyzer of the code-review route\<close>

text \<open>
  \<open>analyzeCode\<close> and its checks share one \<open>issues\<close> array; each check takes the
  array and returns it with its issues pushed. The issue objects have no \<open>category\<close>
  and no \<open>autoFixable\<close>. The metrics fields carry the prefix \<open>cr\<close> where the
  multi-dimensional analyzer has a field of the same name.
\<close>

record reviewMetrics =
  crTotalLines :: int
  crCodeLines :: int
  crCommentLines :: int
  blankLines :: int
  errorCount :: int
  warningCount :: int
  infoCount :: int
  qualityScore :: int

record codeReview =
  crIssues :: "issue list"
  crMetrics :: reviewMetrics

definition checkTrailingWhitespace :: "string list \<Rightarrow> issue list \<Rightarrow> issue list" where
  "checkTrailingWhitespace lines iss =
     iss @ forEachLine lines (\<lambda>line index.
       if endsWith line '' '' \<or> endsWith line [CHR 0x09]
       then [\<lparr>type = ''style'', category = None, severity = Info, line = int index + 1,
              message = ''Trailing whitespace detected'',
              suggestion = ''Remove trailing whitespace at the end of the line'',
              autoFixable = None\<rparr>]
       else [])"

definition checkFileSize :: "string \<Rightarrow> issue list \<Rightarrow> issue list" where
  "checkFileSize content iss =
     (if byteLength content > 500 * 1024
      then iss @
        [\<lparr>type = ''performance'', category = None, severity = Warning, line = 1,
          message = ''Large file size: '' @ toFixed2KB (byteLength content) @ '' KB'',
          suggestion =
            ''Consider splitting this file into smaller modules for better maintainability'',
          autoFixable = None\<rparr>]
      else iss)"

definition checkLongLines :: "string list \<Rightarrow> issue list \<Rightarrow> issue list" where
  "checkLongLines lines iss =
     iss @ forEachLine lines (\<lambda>line index.
       if length line > 120
       then [\<lparr>type = ''style'', category = None, severity = Info, line = int index + 1,
              message = ''Line too long ('' @ showNat (length line) @ '' characters)'',
              suggestion =
                ''Consider breaking this line into multiple lines for better readability'',
              autoFixable = None\<rparr>]
       else [])"

definition checkEmptyFile :: "string \<Rightarrow> issue list \<Rightarrow> issue list" where
  "checkEmptyFile content iss =
     (if length (trim content) = 0
      then iss @
        [\<lparr>type = ''quality'', category = None, severity = Warning, line = 1,
          message = ''File is empty'',
          suggestion = ''Remove unused files or add content'',
          autoFixable = None\<rparr>]
      else iss)"

text \<open>\<open>s.split(/\s+/)\<close>: the pieces between the maximal runs of white space.\<close>

function splitWhitespace :: "string \<Rightarrow> string list" where
  "splitWhitespace [] = [[]]"
| "splitWhitespace (c # cs) =
     (if isWhiteSpace c then [] # splitWhitespace (dropWhile isWhiteSpace cs)
      else (case splitWhitespace cs of [] \<Rightarrow> [[c]] | l # ls \<Rightarrow> (c # l) # ls))"
  by pat_completeness auto
termination
  by (relation "measure length") (auto simp: length_dropWhile_le le_imp_less_Suc)

text \<open>
  \<open>declaration.split(/\s+/)[1]\<close> inside a template literal: the second piece, or the
  text \<open>undefined\<close>.
\<close>

definition secondWord :: "string \<Rightarrow> string" where
  "secondWord declaration =
     (case splitWhitespace declaration of _ # w # _ \<Rightarrow> w | _ \<Rightarrow> ''undefined'')"

definition missingSemicolon :: "string \<Rightarrow> bool" where
  "missingSemicolon l =
     (let trimmed = trim l in
      trimmed \<noteq> [] \<and>
      \<not> endsWith trimmed '';'' \<and>
      \<not> endsWith trimmed ''{'' \<and>
      \<not> endsWith trimmed ''}'' \<and>
      \<not> endsWith trimmed '','' \<and>
      \<not> startsWith trimmed ''//'' \<and>
      \<not> startsWith trimmed ''/*'' \<and>
      \<not> startsWith trimmed ''*'' \<and>
      \<not> includes_str trimmed ''import '' \<and>
      \<not> includes_str trimmed ''export '' \<and>
      (includes_str trimmed ''const '' \<or> includes_str trimmed ''let ''
       \<or> includes_str trimmed ''var '' \<or> includes_str trimmed ''return ''))"

text \<open>The \<open>try\<close>/\<open>catch\<close> around \<open>acorn.parse\<close> in \<open>analyzeJavaScript\<close>.\<close>

definition syntaxCheck :: "runtime \<Rightarrow> string \<Rightarrow> issue list \<Rightarrow> issue list" where
  "syntaxCheck rt content iss =
     (case acornParse rt content of
        None \<Rightarrow> iss
      | Some error \<Rightarrow>
          (case err_loc error of
             None \<Rightarrow> iss
           | Some loc \<Rightarrow> iss @
               [\<lparr>type = ''syntax'', category = None, severity = Error, line = pos_line loc,
                 message = ''Syntax error: '' @ err_message error,
                 suggestion =
                   ''Fix the syntax error to ensure the code can be parsed correctly'',
                 autoFixable = None\<rparr>]))"

text \<open>The unused-variable check of \<open>analyzeJavaScript\<close>; its issues carry line 0.\<close>

definition unusedVariables :: "runtime \<Rightarrow> string \<Rightarrow> issue list \<Rightarrow> issue list" where
  "unusedVariables rt content iss =
     (let variableDeclarations = regexMatchAll rt RxDeclaration content
      in iss @ concat (map (\<lambda>declaration.
           let varName = secondWord declaration;
               occurrences = length (regexMatchAll rt (RxWord varName) content)
           in if occurrences = 1
              then [\<lparr>type = ''quality'', category = None, severity = Info, line = 0,
                     message = ''Variable \"'' @ varName @ ''\" may be unused'',
                     suggestion = ''Remove unused variables to improve code clarity'',
                     autoFixable = None\<rparr>]
              else []) variableDeclarations))"

definition analyzeJavaScript ::
  "runtime \<Rightarrow> string \<Rightarrow> string list \<Rightarrow> issue list \<Rightarrow> string \<Rightarrow> issue list" where
  "analyzeJavaScript rt content lines iss fileName =
     (let i1 = iss @ forEachLine lines (\<lambda>line index.
            if regexTest rt RxConsoleError line
            then [\<lparr>type = ''quality'', category = None, severity = Warning,
                   line = int index + 1,
                   message = ''Console statement detected'',
                   suggestion = ''Remove console statements before production deployment'',
                   autoFixable = None\<rparr>]
            else []);
          i2 = i1 @ forEachLine lines (\<lambda>line index.
            if regexTest rt RxVar line
            then [\<lparr>type = ''best-practice'', category = None, severity = Warning,
                   line = int index + 1,
                   message = ''Use of \"var\" keyword'',
                   suggestion = ''Use \"const\" or \"let\" instead of \"var\" for better scoping'',
                   autoFixable = None\<rparr>]
            else []);
          i3 = i2 @ forEachLine lines (\<lambda>line index.
            if regexTest rt RxLooseEq line \<and> \<not> includes_str line ''===''
            then [\<lparr>type = ''best-practice'', category = None, severity = Warning,
                   line = int index + 1,
                   message = ''Use of loose equality (==)'',
                   suggestion = ''Use strict equality (===) to avoid type coercion issues'',
                   autoFixable = None\<rparr>]
            else []);
          i4 = i3 @ forEachLine lines (\<lambda>line index.
            if missingSemicolon line
            then [\<lparr>type = ''syntax'', category = None, severity = Info,
                   line = int index + 1,
                   message = ''Possibly missing semicolon'',
                   suggestion = ''Add semicolon at the end of the statement'',
                   autoFixable = None\<rparr>]
            else []);
          i5 = syntaxCheck rt content i4;
          i6 = unusedVariables rt content i5;
          i7 = i6 @ forEachLine lines (\<lambda>line index.
            if regexTest rt RxTodo line
            then [\<lparr>type = ''quality'', category = None, severity = Info,
                   line = int index + 1,
                   message = ''TODO/FIXME comment found'',
                   suggestion = ''Address this comment or create a task to track it'',
                   autoFixable = None\<rparr>]
            else [])
      in i7 @ forEachLine lines (\<lambda>line index.
            let leadingSpaces = searchNonSpace line in
            if leadingSpaces > 20
            then [\<lparr>type = ''complexity'', category = None, severity = Warning,
                   line = int index + 1,
                   message = ''Deeply nested code detected'',
                   suggestion =
                     ''Consider refactoring to reduce nesting levels for better readability'',
                   autoFixable = None\<rparr>]
            else []))"

definition analyzePython :: "runtime \<Rightarrow> string list \<Rightarrow> issue list \<Rightarrow> issue list" where
  "analyzePython rt lines iss =
     iss @ forEachLine lines (\<lambda>line index.
       (if regexTest rt RxPrint line
        then [\<lparr>type = ''quality'', category = None, severity = Warning, line = int index + 1,
               message = ''Print statement detected'',
               suggestion = ''Use proper logging instead of print statements'',
               autoFixable = None\<rparr>]
        else []) @
       (if includes_str line [CHR 0x09]
        then [\<lparr>type = ''style'', category = None, severity = Warning, line = int index + 1,
               message = ''Tab character used for indentation'',
               suggestion = ''Use 4 spaces for indentation (PEP 8)'',
               autoFixable = None\<rparr>]
        else []))"

definition analyzeCSS :: "runtime \<Rightarrow> string list \<Rightarrow> issue list \<Rightarrow> issue list" where
  "analyzeCSS rt lines iss =
     iss @ forEachLine lines (\<lambda>line index.
       (if includes_str line ''!important''
        then [\<lparr>type = ''best-practice'', category = None, severity = Warning,
               line = int index + 1,
               message = ''Use of !important detected'',
               suggestion = ''Avoid using !important; refactor specificity instead'',
               autoFixable = None\<rparr>]
        else []) @
       (if regexTest rt RxHexColor line
        then [\<lparr>type = ''best-practice'', category = None, severity = Info,
               line = int index + 1,
               message = ''Hard-coded color value'',
               suggestion = ''Consider using CSS variables for better maintainability'',
               autoFixable = None\<rparr>]
        else []))"

definition analyzeHTML :: "string list \<Rightarrow> issue list \<Rightarrow> issue list" where
  "analyzeHTML lines iss =
     (let hasDoctype = list_ex (\<lambda>line. includes_str (toLowerCase line) ''<!doctype'') lines;
          i1 = iss @ forEachLine lines (\<lambda>line index.
            (if includes_str line ''style=''
             then [\<lparr>type = ''best-practice'', category = None, severity = Info,
                    line = int index + 1,
                    message = ''Inline style attribute detected'',
                    suggestion = ''Use external CSS for better maintainability'',
                    autoFixable = None\<rparr>]
             else []) @
            (if includes_str line ''<img'' \<and> \<not> includes_str line ''alt=''
             then [\<lparr>type = ''accessibility'', category = None, severity = Warning,
                    line = int index + 1,
                    message = ''Image missing alt attribute'',
                    suggestion = ''Add alt attribute for accessibility'',
                    autoFixable = None\<rparr>]
             else []))
      in if \<not> hasDoctype
         then i1 @
           [\<lparr>type = ''quality'', category = None, severity = Warning, line = 1,
             message = ''Missing DOCTYPE declaration'',
             suggestion = ''Add <!DOCTYPE html> at the beginning of the file'',
             autoFixable = None\<rparr>]
         else i1)"

definition analyzeJSON :: "runtime \<Rightarrow> string \<Rightarrow> issue list \<Rightarrow> issue list" where
  "analyzeJSON rt content iss =
     (case jsonParse rt content of
        None \<Rightarrow> iss
      | Some error \<Rightarrow> iss @
          [\<lparr>type = ''syntax'', category = None, severity = Error, line = 0,
            message = ''Invalid JSON: '' @ err_message error,
            suggestion = ''Fix the JSON syntax error'',
            autoFixable = None\<rparr>])"

text \<open>\<open>calculateMetrics\<close> of the code-review route.\<close>

definition calculateMetricsReview :: "string \<Rightarrow> string list \<Rightarrow> issue list \<Rightarrow> reviewMetrics" where
  "calculateMetricsReview content lines iss =
     (let totalLinesN = int (length lines);
          codeLinesN = int (length (filter (\<lambda>l. length (trim l) > 0) lines));
          commentLinesN = int (length (filter (\<lambda>l.
             let trimmed = trim l in
             startsWith trimmed ''//'' \<or> startsWith trimmed ''/*'' \<or> startsWith trimmed ''*'') lines));
          errorCountN = int (length (filter (\<lambda>i. severity i = Error) iss));
          warningCountN = int (length (filter (\<lambda>i. severity i = Warning) iss));
          infoCountN = int (length (filter (\<lambda>i. severity i = Info) iss));
          q = max 0 (100 - errorCountN * 10 - warningCountN * 3 - infoCountN * 1)
      in \<lparr>crTotalLines = totalLinesN, crCodeLines = codeLinesN,
          crCommentLines = commentLinesN, blankLines = totalLinesN - codeLinesN,
          errorCount = errorCountN, warningCount = warningCountN, infoCount = infoCountN,
          qualityScore = q\<rparr>)"

definition analyzeCode :: "runtime \<Rightarrow> string \<Rightarrow> string \<Rightarrow> codeReview" where
  "analyzeCode rt content fileName =
     (let lines = split (CHR 0x0A) content;
          fileExtension = toLowerCase (pop (split (CHR ''.'') fileName));
          isJavaScript = fileExtension \<in> set [''js'', ''jsx'', ''mjs'', ''cjs''];
          isTypeScript = fileExtension \<in> set [''ts'', ''tsx''];
          isPython = fileExtension \<in> set [''py''];
          isCSS = fileExtension \<in> set [''css'', ''scss'', ''sass'', ''less''];
          isHTML = fileExtension \<in> set [''html'', ''htm''];
          isJSON = fileExtension \<in> set [''json''];
          i1 = checkTrailingWhitespace lines [];
          i2 = checkFileSize content i1;
          i3 = checkLongLines lines i2;
          i4 = checkEmptyFile content i3;
          i5 = (if isJavaScript \<or> isTypeScript then analyzeJavaScript rt content lines i4 fileName
                else if isPython then analyzePython rt lines i4
                else if isCSS then analyzeCSS rt lines i4
                else if isHTML then analyzeHTML lines i4
                else if isJSON then analyzeJSON rt content i4
                else i4)
      in \<lparr>crIssues = i5, crMetrics = calculateMetricsReview content lines i5\<rparr>)"

section \<open>The version store\<close>

text \<open>
  A row of the \<open>fileVersion\<close> table, fields prefixed \<open>fv\<close>. The database assigns
  \<open>id\<close> (modelled as the number of rows already stored) and \<open>createdAt\<close> (not
  modelled: no function below reads it). The table is the list of its rows in the order
  of their creation. The calls of the database client are taken to return; a call that
  rejects is rethrown by the source and is outside the model.
\<close>

record fileVersion =
  fv_id :: nat
  fv_userId :: string
  fv_fileKey :: string
  fv_fileName :: string
  fv_version :: int
  fv_content :: string
  fv_hash :: string
  fv_size :: int

text \<open>
  \<open>generateContentHash\<close>: the hex digest of SHA-256, a function of the Node runtime
  and a parameter here.
\<close>

definition generateContentHash :: "(string \<Rightarrow> string) \<Rightarrow> string \<Rightarrow> string" where
  "generateContentHash sha256hex content = sha256hex content"

text \<open>
  \<open>prisma.fileVersion.findFirst({ where: { fileKey }, orderBy: { version: 'desc' } })\<close>:
  a row of the key with the greatest version, \<open>None\<close> for \<open>null\<close>.
\<close>

definition findFirstLatest :: "fileVersion list \<Rightarrow> string \<Rightarrow> fileVersion option" where
  "findFirstLatest tbl fileKey =
     (case filter (\<lambda>r. fv_fileKey r = fileKey) tbl of
        [] \<Rightarrow> None
      | r # rs \<Rightarrow> Some (fold (\<lambda>x best. if fv_version x > fv_version best then x else best) rs r))"

definition getLatestFileVersion :: "fileVersion list \<Rightarrow> string \<Rightarrow> fileVersion option" where
  "getLatestFileVersion tbl fileKey = findFirstLatest tbl fileKey"

text \<open>The object \<open>storeFileVersion\<close> returns; \<open>sr_id\<close> is absent when nothing was stored.\<close>

record storeResult =
  changed :: bool
  version :: int
  sr_id :: "nat option"

text \<open>\<open>x || 0\<close> on a number.\<close>

definition orZero :: "int \<Rightarrow> int" where
  "orZero x = (if x = 0 then 0 else x)"

definition storeFileVersion ::
  "(string \<Rightarrow> string) \<Rightarrow> string \<Rightarrow> string \<Rightarrow> string \<Rightarrow> string \<Rightarrow> fileVersion list
     \<Rightarrow> storeResult \<times> fileVersion list" where
  "storeFileVersion sha256hex userId fileKey fileName content tbl =
     (let hash = generateContentHash sha256hex content;
          size = byteLength content;
          latestVersion = findFirstLatest tbl fileKey
      in if latestVersion \<noteq> None \<and> fv_hash (the latestVersion) = hash
         then (\<lparr>changed = False, version = fv_version (the latestVersion), sr_id = None\<rparr>, tbl)
         else
          (let newVersion = (case latestVersion of None \<Rightarrow> 0 | Some l \<Rightarrow> orZero (fv_version l)) + 1;
               row = \<lparr>fv_id = length tbl, fv_userId = userId, fv_fileKey = fileKey,
                      fv_fileName = fileName, fv_version = newVersion, fv_content = content,
                      fv_hash = hash, fv_size = size\<rparr>
           in (\<lparr>changed = True, version = newVersion, sr_id = Some (fv_id row)\<rparr>, tbl @ [row])))"

section \<open>The incremental review route\<close>

text \<open>
  An element of the array \<open>getChangedLines\<close> returns. The diff engine is not among the
  sources; the route reads \<open>lineNumber\<close> and \<open>type\<close> (here \<open>changeType\<close>) of each
  element, and \<open>calculateDiff\<close> and \<open>getChangedLines\<close> are parameters of the route.
\<close>

record changedLine =
  lineNumber :: int
  changeType :: string

record incrementalData =
  linesChanged :: int
  linesAdded :: int
  linesDeleted :: int
  issuesFound :: int

text \<open>\<open>{ ...metrics, incrementalData }\<close>.\<close>

record incrementalMetrics =
  baseMetrics :: reviewMetrics
  incremental :: incrementalData

record review =
  rv_id :: nat
  rv_userId :: string
  rv_fileVersionId :: nat
  rv_reviewType :: string
  rv_linesReviewed :: "changedLine list"
  rv_issues :: "issue list"
  rv_metrics :: incrementalMetrics

text \<open>
  The state the route works on: the blobs of the object store (\<open>getFileContent\<close>
  throws where the key has none), the \<open>fileVersion\<close> table and the \<open>review\<close> table.
\<close>

record store =
  blobs :: "string \<rightharpoonup> string"
  fileVersions :: "fileVersion list"
  reviews :: "review list"

definition getFileContent :: "store \<Rightarrow> string \<Rightarrow> string option" where
  "getFileContent st key = blobs st key"

record user =
  user_id :: string

text \<open>The body of the request; a field is \<open>None\<close> when the JSON has none.\<close>

record request =
  req_fileKey :: "string option"
  req_fileName :: "string option"

text \<open>The JSON body of a successful answer, with or without changes.\<close>

record reviewBody =
  rb_fileName :: string
  rb_fileKey :: string
  rb_content :: string
  rb_changedLines :: "changedLine list"
  rb_issues :: "issue list"
  rb_metrics :: incrementalMetrics

datatype response =
    Unauthorized          \<comment> \<open>status 401\<close>
  | FileKeyRequired       \<comment> \<open>status 400\<close>
  | RequiresFullReview    \<comment> \<open>\<open>success: false, requiresFullReview: true\<close>\<close>
  | NoChanges reviewBody  \<comment> \<open>\<open>success: true, message: 'No changes detected'\<close>\<close>
  | IncrementalReview reviewBody  \<comment> \<open>\<open>success: true, reviewType: 'incremental'\<close>\<close>
  | Failed                \<comment> \<open>status 500, from the \<open>catch\<close> of the route\<close>

text \<open>\<open>Array.from(new Set(xs))\<close>: the first occurrence of each element, in order.\<close>

fun distinctInOrder :: "int list \<Rightarrow> int list \<Rightarrow> int list" where
  "distinctInOrder seen [] = []"
| "distinctInOrder seen (x # xs) =
     (if x \<in> set seen then distinctInOrder seen xs else x # distinctInOrder (x # seen) xs)"

text \<open>The filter of the route: the issues on or within 2 lines of a changed line.\<close>

definition filterIncremental :: "changedLine list \<Rightarrow> issue list \<Rightarrow> issue list" where
  "filterIncremental changedLines iss =
     (let changedLineNumbers = distinctInOrder [] (map lineNumber changedLines)
      in filter (\<lambda>issue. list_ex (\<lambda>lineNum. \<bar>line issue - lineNum\<bar> \<le> 2) changedLineNumbers) iss)"

text \<open>\<open>fileName || fileKey.split('/').pop()\<close>.\<close>

definition displayName :: "string option \<Rightarrow> string \<Rightarrow> string" where
  "displayName fileName fileKey =
     (case fileName of
        None \<Rightarrow> pop (split (CHR ''/'') fileKey)
      | Some n \<Rightarrow> if n = [] then pop (split (CHR ''/'') fileKey) else n)"

text \<open>
  What a route module exports. The module of the code review route declares
  \<open>analyzeCode\<close>, its language analyzers and \<open>calculateMetrics\<close> at module level
  without \<open>export\<close>; the one name it exports is \<open>POST\<close>. The incremental route
  imports \<open>analyzeCode\<close> from that module: the name is not among the exports, so the
  imported binding is \<open>undefined\<close> (the bundler of the application leaves a missing
  export unbound), and calling it throws a \<open>TypeError\<close>.
\<close>

datatype exported =
    Handler                                                    \<comment> \<open>a route handler\<close>
  | Analyzer "runtime \<Rightarrow> string \<Rightarrow> string \<Rightarrow> codeReview"  \<comment> \<open>an analyzer function\<close>

definition codeReviewRoute :: "string \<rightharpoonup> exported" where
  "codeReviewRoute = [''POST'' \<mapsto> Handler]"

text \<open>
  \<open>POST\<close> of the incremental review route, on the result of \<open>withAuth\<close> (\<open>None\<close>: no
  user) and the body of the request (\<open>None\<close>: \<open>request.json()\<close> throws). Every
  \<open>throw\<close> inside the \<open>try\<close> ends in \<open>Failed\<close>: a missing blob, the call of the
  imported \<open>analyzeCode\<close> when the binding is not a function, and a missing
  \<open>fileName\<close> once \<open>analyzeCode\<close> calls \<open>fileName.split\<close>. The route returns its
  answer and the state it leaves.
\<close>

definition POST_incremental ::
  "runtime \<Rightarrow> (string \<Rightarrow> string \<Rightarrow> 'd) \<Rightarrow> ('d \<Rightarrow> changedLine list)
     \<Rightarrow> user option \<Rightarrow> request option \<Rightarrow> store \<Rightarrow> response \<times> store" where
  "POST_incremental rt calculateDiff getChangedLines auth body st =
     (case auth of
        None \<Rightarrow> (Unauthorized, st)
      | Some user \<Rightarrow>
     (case body of
        None \<Rightarrow> (Failed, st)
      | Some req \<Rightarrow>
     (if req_fileKey req = None \<or> req_fileKey req = Some [] then (FileKeyRequired, st)
      else
     (let fileKey = the (req_fileKey req); fileName = req_fileName req in
      case getFileContent st fileKey of
        None \<Rightarrow> (Failed, st)
      | Some currentContent \<Rightarrow>
     (case getLatestFileVersion (fileVersions st) fileKey of
        None \<Rightarrow> (RequiresFullReview, st)
      | Some previousVersion \<Rightarrow>
     (let diff = calculateDiff (fv_content previousVersion) currentContent;
          changedLines = getChangedLines diff
      in if length changedLines = 0
         then (NoChanges
                 \<lparr>rb_fileName = displayName fileName fileKey,
                  rb_fileKey = fileKey,
                  rb_content = currentContent,
                  rb_changedLines = [],
                  rb_issues = [],
                  rb_metrics =
                    \<lparr>baseMetrics =
                       \<lparr>crTotalLines = int (length (split (CHR 0x0A) currentContent)),
                        crCodeLines = 0, crCommentLines = 0, blankLines = 0,
                        errorCount = 0, warningCount = 0, infoCount = 0,
                        qualityScore = 100\<rparr>,
                     incremental =
                       \<lparr>linesChanged = 0, linesAdded = 0, linesDeleted = 0,
                        issuesFound = 0\<rparr>\<rparr>\<rparr>, st)
         else
          (case codeReviewRoute ''analyzeCode'' of
             None \<Rightarrow> (Failed, st)
           | Some Handler \<Rightarrow> (Failed, st)
           | Some (Analyzer imported) \<Rightarrow>
          (case fileName of
             None \<Rightarrow> (Failed, st)
           | Some name \<Rightarrow>
          (let fullAnalysis = imported rt currentContent name;
               incrementalIssues = filterIncremental changedLines (crIssues fullAnalysis);
               m = \<lparr>baseMetrics = crMetrics fullAnalysis,
                    incremental =
                      \<lparr>linesChanged = int (length changedLines),
                       linesAdded =
                         int (length (filter (\<lambda>c. changeType c = ''added'') changedLines)),
                       linesDeleted =
                         int (length (filter (\<lambda>c. changeType c = ''deleted'') changedLines)),
                       issuesFound = int (length incrementalIssues)\<rparr>\<rparr>;
               created = \<lparr>rv_id = length (reviews st),
                          rv_userId = user_id user,
                          rv_fileVersionId = fv_id previousVersion,
                          rv_reviewType = ''incremental'',
                          rv_linesReviewed = changedLines,
                          rv_issues = incrementalIssues,
                          rv_metrics = m\<rparr>
           in (IncrementalReview
                 \<lparr>rb_fileName = displayName fileName fileKey,
                  rb_fileKey = fileKey,
                  rb_content = currentContent,
                  rb_changedLines = changedLines,
                  rb_issues = incrementalIssues,
                  rb_metrics = m\<rparr>,
               st\<lparr>reviews := reviews st @ [created]\<rparr>))))))))))"

section \<open>Auxiliary definitions for the statements\<close>

text \<open>
  What each pass of the multi-dimensional analyzer pushes, read off a run of the pass
  on the initial \<open>analysis\<close> object.
\<close>

definition lintingIssues :: "runtime \<Rightarrow> string \<Rightarrow> string list \<Rightarrow> string \<Rightarrow> issue list" where
  "lintingIssues rt content lines fileExtension =
     issues (linting (performLintingAnalysis rt content lines fileExtension initialAnalysis))"

definition securityIssues :: "runtime \<Rightarrow> string \<Rightarrow> string list \<Rightarrow> string \<Rightarrow> issue list" where
  "securityIssues rt content lines fileExtension =
     issues (security (performSecurityAnalysis rt content lines fileExtension initialAnalysis))"

definition architectureIssues :: "runtime \<Rightarrow> string \<Rightarrow> string list \<Rightarrow> string \<Rightarrow> issue list" where
  "architectureIssues rt content lines fileExtension =
     issues (architecture (performArchitectureAnalysis rt content lines fileExtension initialAnalysis))"

definition qualityIssues :: "runtime \<Rightarrow> string \<Rightarrow> string list \<Rightarrow> string \<Rightarrow> issue list" where
  "qualityIssues rt content lines fileExtension =
     issues (quality (performQualityAnalysis rt content lines fileExtension initialAnalysis))"

definition documentationIssues :: "runtime \<Rightarrow> string \<Rightarrow> string list \<Rightarrow> string \<Rightarrow> issue list" where
  "documentationIssues rt content lines fileExtension =
     docIssues (documentation (performDocumentationAnalysis rt content lines fileExtension initialAnalysis))"

definition documentationSuggestions :: "runtime \<Rightarrow> string \<Rightarrow> string list \<Rightarrow> string \<Rightarrow> issue list" where
  "documentationSuggestions rt content lines fileExtension =
     suggestions (documentation (performDocumentationAnalysis rt content lines fileExtension initialAnalysis))"

text \<open>The file extension both analyzers compute, and the metrics object.\<close>

definition fileExtensionOf :: "string \<Rightarrow> string" where
  "fileExtensionOf fileName = toLowerCase (pop (split (CHR ''.'') fileName))"

definition metricsOf :: "runtime \<Rightarrow> string \<Rightarrow> metrics option" where
  "metricsOf rt content =
     metrics (calculateMetrics rt content (split (CHR 0x0A) content) initialAnalysis)"

text \<open>
  The severity weights in the words of the specification: critical 15, error 10,
  warning 5, info 1, and the penalty a list of issues adds up to.
\<close>

definition penalty :: "severity \<Rightarrow> int" where
  "penalty s = (case s of Critical \<Rightarrow> 15 | Error \<Rightarrow> 10 | Warning \<Rightarrow> 5 | Info \<Rightarrow> 1)"

definition totalPenalty :: "issue list \<Rightarrow> int" where
  "totalPenalty iss = sum_list (map (\<lambda>i. penalty (severity i)) iss)"

text \<open>An issue that carries a line number counting from 1.\<close>

definition positiveLine :: "issue \<Rightarrow> bool" where
  "positiveLine i = (1 \<le> line i)"


section \<open>Example inputs\<close>

text \<open>
  A runtime whose only matching pattern is the password pattern, on lines that hold
  \<open>password="\<close>; and a text of 21 lines, each nested 25 columns deep and holding a
  hard-coded password.
\<close>

definition rtPassword :: runtime where
  "rtPassword =
     \<lparr>regexTest = (\<lambda>p s. p = RxPassword \<and> includes_str s ''password=\"''),
      regexMatchAll = (\<lambda>p s. []),
      acornParse = (\<lambda>s. None),
      jsonParse = (\<lambda>s. None)\<rparr>"

definition nestedSecretLine :: string where
  "nestedSecretLine = ''                         password=\"a\"''"

definition overloadedContent :: string where
  "overloadedContent = join [CHR 0x0A] (replicate 21 nestedSecretLine)"

text \<open>
  A script whose second line does not parse, and a runtime in which \<open>acorn.parse\<close>
  throws on it with the position acorn reports (line 2, column 8) and whose \<open>var\<close>
  pattern matches the lines that hold \<open>var\<close> followed by a blank.
\<close>

definition brokenJs :: string where
  "brokenJs = join [CHR 0x0A] [''var x = 1;'', ''var y = ;'']"

definition rtSyntaxError :: runtime where
  "rtSyntaxError =
     \<lparr>regexTest = (\<lambda>p s. p = RxVar \<and> includes_str s ''var ''),
      regexMatchAll = (\<lambda>p s. []),
      acornParse = (\<lambda>s. if s = brokenJs
                          then Some \<lparr>err_message = ''Unexpected token (2:8)'',
                                     err_loc = Some \<lparr>pos_line = 2, pos_column = 8\<rparr>\<rparr>
                          else None),
      jsonParse = (\<lambda>s. None)\<rparr>"

section \<open>Auxiliary definitions for the version store\<close>

text \<open>
  The version numbers stored for a key, in the order of their creation; \<open>gapless\<close>
  says that they are \<open>1, 2, ..., n\<close>. \<open>storeAll\<close> runs a list of puts one after the
  other, and \<open>newRow\<close> is the row a put creates.
\<close>

definition versionsOf :: "fileVersion list \<Rightarrow> string \<Rightarrow> int list" where
  "versionsOf tbl fileKey = map fv_version (filter (\<lambda>r. fv_fileKey r = fileKey) tbl)"

definition gapless :: "fileVersion list \<Rightarrow> string \<Rightarrow> bool" where
  "gapless tbl fileKey =
     (versionsOf tbl fileKey = map int [1 ..< Suc (length (versionsOf tbl fileKey))])"

record putRequest =
  put_userId :: string
  put_fileKey :: string
  put_fileName :: string
  put_content :: string

fun storeAll :: "(string \<Rightarrow> string) \<Rightarrow> putRequest list \<Rightarrow> fileVersion list \<Rightarrow> fileVersion list" where
  "storeAll sha256hex [] tbl = tbl"
| "storeAll sha256hex (p # ps) tbl =
     storeAll sha256hex ps
       (snd (storeFileVersion sha256hex (put_userId p) (put_fileKey p) (put_fileName p)
               (put_content p) tbl))"

definition newRow ::
  "(string \<Rightarrow> string) \<Rightarrow> string \<Rightarrow> string \<Rightarrow> string \<Rightarrow> string \<Rightarrow> fileVersion list \<Rightarrow> int \<Rightarrow> fileVersion" where
  "newRow sha256hex u k n c tbl v =
     \<lparr>fv_id = length tbl, fv_userId = u, fv_fileKey = k, fv_fileName = n, fv_version = v,
      fv_content = c, fv_hash = sha256hex c, fv_size = byteLength c\<rparr>"

text \<open>
  Sample inputs: the SHA-256 digests of the contents \<open>a\<close> and \<open>b\<close> (no example hashes
  another content), and three puts for one key.
\<close>

definition sha256Sample :: "string \<Rightarrow> string" where
  "sha256Sample s =
     (if s = ''a'' then ''ca978112ca1bbdcafac231b39a23dc4da786eff8147c4e72b9807785afee48bb''
      else if s = ''b'' then ''3e23e8160039594a33894f6564e1b1348bbd7a0088d42c4acb73eeaed59c009d''
      else [])"

definition samplePuts :: "putRequest list" where
  "samplePuts =
     [\<lparr>put_userId = ''u1'', put_fileKey = ''u1/app.js'', put_fileName = ''app.js'',
        put_content = ''a''\<rparr>,
      \<lparr>put_userId = ''u1'', put_fileKey = ''u1/app.js'', put_fileName = ''app.js'',
        put_content = ''a''\<rparr>,
      \<lparr>put_userId = ''u1'', put_fileKey = ''u1/app.js'', put_fileName = ''app.js'',
        put_content = ''b''\<rparr>]"

section \<open>Auxiliary definitions for the incremental review route\<close>

text \<open>
  The proximity window in the words of the specification: an issue is within the window
  of a changed-line set when its line is at most 2 lines from a changed line.
  \<open>responseIssues\<close> reads the issue set off an answer (an answer without a body
  carries no issue), and \<open>noChangesBody\<close> is the body of the answer without changes.
\<close>

definition withinWindow :: "changedLine list \<Rightarrow> issue \<Rightarrow> bool" where
  "withinWindow changedLines i = (\<exists>c \<in> set changedLines. \<bar>line i - lineNumber c\<bar> \<le> 2)"


definition noChangesBody :: "string option \<Rightarrow> string \<Rightarrow> string \<Rightarrow> reviewBody" where
  "noChangesBody fileName fileKey currentContent =
     \<lparr>rb_fileName = displayName fileName fileKey,
      rb_fileKey = fileKey,
      rb_content = currentContent,
      rb_changedLines = [],
      rb_issues = [],
      rb_metrics =
        \<lparr>baseMetrics =
           \<lparr>crTotalLines = int (length (split (CHR 0x0A) currentContent)),
            crCodeLines = 0, crCommentLines = 0, blankLines = 0,
            errorCount = 0, warningCount = 0, infoCount = 0,
            qualityScore = 100\<rparr>,
         incremental =
           \<lparr>linesChanged = 0, linesAdded = 0, linesDeleted = 0, issuesFound = 0\<rparr>\<rparr>\<rparr>"

section \<open>Example inputs for the route\<close>

text \<open>
  A line-by-line comparison of two texts with the same number of lines stands in for
  the diff engine in the examples. The JavaScript sample has 13 lines with a \<open>var\<close>
  declaration on line 10; the runtime \<open>rtVar\<close> matches the \<open>var\<close> pattern on the lines
  that hold \<open>var\<close> followed by a blank, finds the one declaration \<open>var x\<close> and the
  one occurrence of the word \<open>x\<close> in the sample, and nothing else. The JSON samples
  are a valid text and the same text with a value removed on line 2 of 3; the runtime
  \<open>rtJson\<close> makes \<open>JSON.parse\<close> throw on the broken text.
\<close>

definition sampleDiff :: "string \<Rightarrow> string \<Rightarrow> changedLine list" where
  "sampleDiff old new =
     concat (map (\<lambda>(index, a, b).
        if a \<noteq> b then [\<lparr>lineNumber = int index + 1, changeType = ''modified''\<rparr>] else [])
       (List.enumerate 0 (zip (split (CHR 0x0A) old) (split (CHR 0x0A) new))))"

definition sampleJsLines :: "string list" where
  "sampleJsLines = replicate 9 ''f();'' @ [''var x = 1;''] @ replicate 3 ''f();''"

definition sampleJs :: string where
  "sampleJs = join [CHR 0x0A] sampleJsLines"

definition rtVar :: runtime where
  "rtVar =
     \<lparr>regexTest = (\<lambda>p s. p = RxVar \<and> includes_str s ''var ''),
      regexMatchAll = (\<lambda>p s. if p = RxDeclaration \<and> s = sampleJs
                              then [''var x'']
                              else if p = RxWord ''x'' \<and> s = sampleJs
                              then [''x'']
                              else []),
      acornParse = (\<lambda>s. None),
      jsonParse = (\<lambda>s. None)\<rparr>"

text \<open>The sample with line \<open>n\<close> (counted from 1) replaced: a stored older version.\<close>

definition sampleJsBefore :: "nat \<Rightarrow> string" where
  "sampleJsBefore n = join [CHR 0x0A] (sampleJsLines[n - 1 := ''g();''])"

definition varIssueAt10 :: issue where
  "varIssueAt10 =
     \<lparr>type = ''best-practice'', category = None, severity = Warning, line = 10,
      message = ''Use of \"var\" keyword'',
      suggestion = ''Use \"const\" or \"let\" instead of \"var\" for better scoping'',
      autoFixable = None\<rparr>"

definition unusedIssueX :: issue where
  "unusedIssueX =
     \<lparr>type = ''quality'', category = None, severity = Info, line = 0,
      message = ''Variable \"x\" may be unused'',
      suggestion = ''Remove unused variables to improve code clarity'',
      autoFixable = None\<rparr>"





text \<open>A store with one blob under the key and one stored version of it.\<close>

definition sampleStore :: "string \<Rightarrow> string \<Rightarrow> string \<Rightarrow> string \<Rightarrow> store" where
  "sampleStore key name stored current =
     \<lparr>blobs = [key \<mapsto> current],
      fileVersions =
        [\<lparr>fv_id = 0, fv_userId = ''u1'', fv_fileKey = key, fv_fileName = name,
          fv_version = 1, fv_content = stored, fv_hash = [], fv_size = byteLength stored\<rparr>],
      reviews = []\<rparr>"

definition sampleUser :: user where
  "sampleUser = \<lparr>user_id = ''u1''\<rparr>"

definition jsRequest :: request where
  "jsRequest = \<lparr>req_fileKey = Some ''u1/app.js'', req_fileName = Some ''app.js''\<rparr>"


definition thrownSyntaxIssues :: "runtime \<Rightarrow> string \<Rightarrow> issue list" where
  "thrownSyntaxIssues rt content = syntaxCheck rt content []"

definition notError :: "issue \<Rightarrow> bool" where
  "notError i = (severity i \<noteq> Error)"

definition deepJs :: string where
  "deepJs = replicate 100000 (CHR ''['')"

definition rtOverflow :: runtime where
  "rtOverflow =
     \<lparr>regexTest = (\<lambda>p s. False),
      regexMatchAll = (\<lambda>p s. []),
      acornParse = (\<lambda>s. if s = deepJs
                          then Some \<lparr>err_message = ''Maximum call stack size exceeded'',
                                     err_loc = None\<rparr>
                          else None),
      jsonParse = (\<lambda>s. None)\<rparr>"

section \<open>Structure of a run of the multi-dimensional analyzer\<close>

text \<open>
  Each pass only appends to the arrays of its own dimension, so the result of a run is
  made of what the passes push, the metrics and the scores.
\<close>

lemma pushLinting_twice: "pushLinting ys (pushLinting xs a) = pushLinting (xs @ ys) a"
  by (simp add: pushLinting_def)

lemma pushSecurity_twice: "pushSecurity ys (pushSecurity xs a) = pushSecurity (xs @ ys) a"
  by (simp add: pushSecurity_def)

lemma pushArchitecture_twice:
  "pushArchitecture ys (pushArchitecture xs a) = pushArchitecture (xs @ ys) a"
  by (simp add: pushArchitecture_def)

lemma pushQuality_twice: "pushQuality ys (pushQuality xs a) = pushQuality (xs @ ys) a"
  by (simp add: pushQuality_def)

lemma pushSuggestions_twice:
  "pushSuggestions ys (pushSuggestions xs a) = pushSuggestions (xs @ ys) a"
  by (simp add: pushSuggestions_def)

lemma pushSuggestions_pushDocIssues:
  "pushDocIssues ys (pushSuggestions xs a) = pushSuggestions xs (pushDocIssues ys a)"
  by (simp add: pushSuggestions_def pushDocIssues_def)

lemma push_Nil:
  "pushLinting [] a = a" "pushSecurity [] a = a" "pushArchitecture [] a = a"
  "pushQuality [] a = a" "pushDocIssues [] a = a" "pushSuggestions [] a = a"
  by (simp_all add: pushLinting_def pushSecurity_def pushArchitecture_def pushQuality_def
      pushDocIssues_def pushSuggestions_def)

lemma lintJavaScript_pushes: "\<exists>X. \<forall>a. lintJavaScript rt content lines a = pushLinting X a"
proof (cases "acornParse rt content")
  case None
  then show ?thesis
    unfolding lintJavaScript_def Let_def by (simp add: pushLinting_twice) blast
next
  case (Some e)
  then show ?thesis
    unfolding lintJavaScript_def Let_def
    by (cases "err_loc e") (simp_all add: pushLinting_twice, blast+)
qed

lemma performLintingAnalysis_pushes:
  "\<exists>X. \<forall>a. performLintingAnalysis rt content lines ext a = pushLinting X a"
proof -
  obtain X where X: "\<And>a. lintJavaScript rt content lines a = pushLinting X a"
    using lintJavaScript_pushes by blast
  show ?thesis
    unfolding performLintingAnalysis_def Let_def lintPython_def lintCSS_def
    by (simp add: X pushLinting_twice del: set_simps) blast
qed

lemma performLintingAnalysis_frame:
  "performLintingAnalysis rt content lines ext a
     = pushLinting (lintingIssues rt content lines ext) a"
proof -
  obtain X where X: "\<And>a. performLintingAnalysis rt content lines ext a = pushLinting X a"
    using performLintingAnalysis_pushes by blast
  have "lintingIssues rt content lines ext = X"
    by (simp add: lintingIssues_def X pushLinting_def initialAnalysis_def)
  then show ?thesis by (simp add: X)
qed


lemma if_push:
  "(if c then pushLinting xs a else a) = pushLinting (if c then xs else []) a"
  "(if c then pushSecurity xs a else a) = pushSecurity (if c then xs else []) a"
  "(if c then pushArchitecture xs a else a) = pushArchitecture (if c then xs else []) a"
  "(if c then pushQuality xs a else a) = pushQuality (if c then xs else []) a"
  "(if c then pushSuggestions xs a else a) = pushSuggestions (if c then xs else []) a"
  "(if c then pushLinting xs a else pushLinting ys a) = pushLinting (if c then xs else ys) a"
  "(if c then pushSecurity xs a else pushSecurity ys a) = pushSecurity (if c then xs else ys) a"
  by (simp_all add: push_Nil)

lemma performSecurityAnalysis_pushes:
  "\<exists>X. \<forall>a. performSecurityAnalysis rt content lines ext a = pushSecurity X a"
  unfolding performSecurityAnalysis_def Let_def securityCheckJavaScript_def
    securityCheckPython_def if_push pushSecurity_twice
  by blast

lemma performSecurityAnalysis_frame:
  "performSecurityAnalysis rt content lines ext a
     = pushSecurity (securityIssues rt content lines ext) a"
proof -
  obtain X where X: "\<And>a. performSecurityAnalysis rt content lines ext a = pushSecurity X a"
    using performSecurityAnalysis_pushes by blast
  have "securityIssues rt content lines ext = X"
    by (simp add: securityIssues_def X pushSecurity_def initialAnalysis_def)
  then show ?thesis by (simp add: X)
qed

lemma performArchitectureAnalysis_pushes:
  "\<exists>X. \<forall>a. performArchitectureAnalysis rt content lines ext a = pushArchitecture X a"
  unfolding performArchitectureAnalysis_def Let_def if_push pushArchitecture_twice
  by blast

lemma performArchitectureAnalysis_frame:
  "performArchitectureAnalysis rt content lines ext a
     = pushArchitecture (architectureIssues rt content lines ext) a"
proof -
  obtain X where X:
    "\<And>a. performArchitectureAnalysis rt content lines ext a = pushArchitecture X a"
    using performArchitectureAnalysis_pushes by blast
  have "architectureIssues rt content lines ext = X"
    by (simp add: architectureIssues_def X pushArchitecture_def initialAnalysis_def)
  then show ?thesis by (simp add: X)
qed

lemma performQualityAnalysis_pushes:
  "\<exists>X. \<forall>a. performQualityAnalysis rt content lines ext a = pushQuality X a"
  unfolding performQualityAnalysis_def Let_def if_push pushQuality_twice
  by blast

lemma performQualityAnalysis_frame:
  "performQualityAnalysis rt content lines ext a
     = pushQuality (qualityIssues rt content lines ext) a"
proof -
  obtain X where X: "\<And>a. performQualityAnalysis rt content lines ext a = pushQuality X a"
    using performQualityAnalysis_pushes by blast
  have "qualityIssues rt content lines ext = X"
    by (simp add: qualityIssues_def X pushQuality_def initialAnalysis_def)
  then show ?thesis by (simp add: X)
qed

lemma performDocumentationAnalysis_pushes:
  "\<exists>D S. \<forall>a. performDocumentationAnalysis rt content lines ext a
            = pushSuggestions S (pushDocIssues D a)"
proof (cases "ext \<in> set [''js'', ''jsx'', ''ts'', ''tsx'', ''py'', ''java'']")
  case False
  then have "\<forall>a. performDocumentationAnalysis rt content lines ext a
            = pushSuggestions [] (pushDocIssues [] a)"
    unfolding performDocumentationAnalysis_def Let_def by (simp add: push_Nil del: set_simps)
  then show ?thesis by blast
next
  case True
  then show ?thesis
    unfolding performDocumentationAnalysis_def Let_def if_push if_True if_False not_not
      pushSuggestions_twice pushSuggestions_pushDocIssues
    by (simp only: if_True if_False simp_thms) blast
qed

lemma performDocumentationAnalysis_frame:
  "performDocumentationAnalysis rt content lines ext a
     = pushSuggestions (documentationSuggestions rt content lines ext)
         (pushDocIssues (documentationIssues rt content lines ext) a)"
proof -
  obtain D S where X: "\<And>a. performDocumentationAnalysis rt content lines ext a
            = pushSuggestions S (pushDocIssues D a)"
    using performDocumentationAnalysis_pushes by blast
  have "documentationIssues rt content lines ext = D"
    by (simp add: documentationIssues_def X pushSuggestions_def pushDocIssues_def
        initialAnalysis_def)
  moreover have "documentationSuggestions rt content lines ext = S"
    by (simp add: documentationSuggestions_def X pushSuggestions_def pushDocIssues_def
        initialAnalysis_def)
  ultimately show ?thesis by (simp add: X)
qed

lemma calculateMetrics_frame:
  "calculateMetrics rt content lines a
     = a\<lparr>metrics := metrics (calculateMetrics rt content lines initialAnalysis)\<rparr>"
  by (simp add: calculateMetrics_def Let_def)

lemma analyze_structure:
  "analyzeCodeMultiDimensional rt content fileName =
     (let lines = split (CHR 0x0A) content;
          ext = fileExtensionOf fileName;
          L = lintingIssues rt content lines ext;
          S = securityIssues rt content lines ext;
          A = architectureIssues rt content lines ext;
          Q = qualityIssues rt content lines ext;
          D = documentationIssues rt content lines ext;
          G = documentationSuggestions rt content lines ext
      in \<lparr>linting = \<lparr>issues = L, score = calculateScore L 50\<rparr>,
          security = \<lparr>issues = S, score = calculateScore S 100\<rparr>,
          architecture = \<lparr>issues = A, score = calculateScore A 50\<rparr>,
          quality = \<lparr>issues = Q, score = calculateScore Q 50\<rparr>,
          documentation = \<lparr>docIssues = D, suggestions = G\<rparr>,
          metrics = metricsOf rt content,
          allIssues = L @ S @ A @ Q @ D\<rparr>)"
proof -
  have "analyzeCodeMultiDimensional rt content fileName =
     (let lines = split (CHR 0x0A) content;
          ext = fileExtensionOf fileName;
          a6 = (pushSuggestions (documentationSuggestions rt content lines ext)
                 (pushDocIssues (documentationIssues rt content lines ext)
                   (pushQuality (qualityIssues rt content lines ext)
                     (pushArchitecture (architectureIssues rt content lines ext)
                       (pushSecurity (securityIssues rt content lines ext)
                         (pushLinting (lintingIssues rt content lines ext) initialAnalysis))))))
                 \<lparr>metrics := metricsOf rt content\<rparr>
      in calculateScores (a6\<lparr>allIssues :=
                  issues (linting a6) @ issues (security a6) @ issues (architecture a6)
                  @ issues (quality a6) @ docIssues (documentation a6)\<rparr>))"
    unfolding analyzeCodeMultiDimensional_def Let_def fileExtensionOf_def metricsOf_def
    by (simp only: performLintingAnalysis_frame performSecurityAnalysis_frame
        performArchitectureAnalysis_frame performQualityAnalysis_frame
        performDocumentationAnalysis_frame calculateMetrics_frame [of rt content _ "pushSuggestions _ _"])
  then show ?thesis
    by (simp add: Let_def calculateScores_def pushLinting_def pushSecurity_def
        pushArchitecture_def pushQuality_def pushDocIssues_def pushSuggestions_def
        initialAnalysis_def)
qed

section \<open>Dimension scores\<close>

lemma fold_penalty:
  "fold (\<lambda>issue score.
            if severity issue = Critical then score - 15
            else if severity issue = Error then score - 10
            else if severity issue = Warning then score - 5
            else if severity issue = Info then score - 1
            else score) iss s = s - totalPenalty iss"
proof (induction iss arbitrary: s)
  case Nil
  show ?case by (simp add: totalPenalty_def)
next
  case (Cons i iss)
  show ?case
    by (cases "severity i") (simp_all add: Cons.IH totalPenalty_def penalty_def)
qed

lemma calculateScore_eq:
  "calculateScore iss d = max (100 - d) (100 - totalPenalty iss)"
  unfolding calculateScore_def Let_def fold_penalty by simp

text \<open>
  Claim C1. For every content and file name, the score of each scored dimension of the
  result (linting, security, architecture, quality) is 100 minus the sum of the severity
  weights of the dimension's issues (critical 15, error 10, warning 5, info 1), and not
  less than the dimension's floor, which is 0 for security and 50 for the three others.
  In particular an architecture dimension whose penalty exceeds 100 scores exactly 50,
  and a security dimension whose penalty exceeds 100 scores 0. (The documentation
  dimension carries no score.)
\<close>

theorem dimension_scores_floor:
  "let r = analyzeCodeMultiDimensional rt content fileName in
     score (linting r) = max 50 (100 - totalPenalty (issues (linting r))) \<and>
     score (security r) = max 0 (100 - totalPenalty (issues (security r))) \<and>
     score (architecture r) = max 50 (100 - totalPenalty (issues (architecture r))) \<and>
     score (quality r) = max 50 (100 - totalPenalty (issues (quality r))) \<and>
     (totalPenalty (issues (architecture r)) > 100 \<longrightarrow> score (architecture r) = 50) \<and>
     (totalPenalty (issues (security r)) > 100 \<longrightarrow> score (security r) = 0)"
  by (simp add: analyze_structure Let_def calculateScore_eq)

lemma overloaded_lines:
  "split (CHR 0x0A) overloadedContent = replicate 21 nestedSecretLine"
  by code_simp

lemma overloaded_byteLength: "byteLength overloadedContent = 797"
  by code_simp

lemma overloaded_no_default_export: "\<not> includes_str overloadedContent ''export default''"
  by (simp add: overloadedContent_def nestedSecretLine_def eval_nat_numeral)

lemma nestedSecretLine_depth: "searchNonSpace nestedSecretLine = 25"
  by (simp add: nestedSecretLine_def searchNonSpace_def isWhiteSpace_def)

lemma nestedSecretLine_password: "includes_str nestedSecretLine ''password=\"''"
  by (simp add: nestedSecretLine_def)

lemma config_txt_extension: "fileExtensionOf ''config.txt'' = ''txt''"
  by (simp add: fileExtensionOf_def pop_def toLowerCase_def)

lemma overloaded_architecture:
  "map severity (architectureIssues rtPassword overloadedContent
      (split (CHR 0x0A) overloadedContent) (fileExtensionOf ''config.txt''))
     = replicate 21 Warning"
  by (simp add: architectureIssues_def performArchitectureAnalysis_def Let_def
      pushArchitecture_def initialAnalysis_def overloaded_lines overloaded_byteLength
      overloaded_no_default_export nestedSecretLine_depth config_txt_extension
      rtPassword_def forEachLine_def eval_nat_numeral)

lemma overloaded_security:
  "map severity (securityIssues rtPassword overloadedContent
      (split (CHR 0x0A) overloadedContent) (fileExtensionOf ''config.txt''))
     = replicate 21 Critical"
  by (simp add: securityIssues_def performSecurityAnalysis_def Let_def secretPatterns_def
      pushSecurity_def initialAnalysis_def overloaded_lines nestedSecretLine_password
      config_txt_extension rtPassword_def forEachLine_def eval_nat_numeral)

lemma totalPenalty_severities:
  "totalPenalty iss = sum_list (map penalty (map severity iss))"
  by (simp add: totalPenalty_def comp_def)

theorem dimension_scores_floor_witness:
  "totalPenalty (issues (architecture
       (analyzeCodeMultiDimensional rtPassword overloadedContent ''config.txt''))) = 105 \<and>
   score (architecture
       (analyzeCodeMultiDimensional rtPassword overloadedContent ''config.txt'')) = 50 \<and>
   totalPenalty (issues (security
       (analyzeCodeMultiDimensional rtPassword overloadedContent ''config.txt''))) = 315 \<and>
   score (security
       (analyzeCodeMultiDimensional rtPassword overloadedContent ''config.txt'')) = 0"
proof -
  let ?r = "analyzeCodeMultiDimensional rtPassword overloadedContent ''config.txt''"
  have a: "totalPenalty (issues (architecture ?r)) = 105"
    by (simp add: analyze_structure Let_def totalPenalty_severities overloaded_architecture
        penalty_def eval_nat_numeral)
  have s: "totalPenalty (issues (security ?r)) = 315"
    by (simp add: analyze_structure Let_def totalPenalty_severities overloaded_security
        penalty_def eval_nat_numeral)
  from dimension_scores_floor [of rtPassword overloadedContent "''config.txt''"] a s
  show ?thesis by (simp add: Let_def)
qed

section \<open>The version store: idempotent puts and gapless version numbers\<close>

lemma fold_latest:
  "fold (\<lambda>x best. if fv_version x > fv_version best then x else best) rs r \<in> set (r # rs)
   \<and> (\<forall>x \<in> set (r # rs).
        fv_version x \<le> fv_version (fold (\<lambda>x best. if fv_version x > fv_version best then x else best) rs r))"
proof (induction rs arbitrary: r)
  case Nil
  show ?case by simp
next
  case (Cons a rs)
  let ?f = "\<lambda>x best. if fv_version x > fv_version best then x else best"
  show ?case
  proof (cases "fv_version a > fv_version r")
    case True
    with Cons.IH [of a] show ?thesis by auto
  next
    case False
    with Cons.IH [of r] show ?thesis by auto
  qed
qed

lemma findFirstLatest_None:
  "findFirstLatest tbl k = None \<longleftrightarrow> versionsOf tbl k = []"
  by (simp add: findFirstLatest_def versionsOf_def split: list.splits)

lemma findFirstLatest_Some:
  assumes "findFirstLatest tbl k = Some l"
  shows "l \<in> set tbl" and "fv_fileKey l = k"
    and "\<forall>r \<in> set tbl. fv_fileKey r = k \<longrightarrow> fv_version r \<le> fv_version l"
proof -
  obtain r rs where f: "filter (\<lambda>r. fv_fileKey r = k) tbl = r # rs"
    using assms by (auto simp: findFirstLatest_def split: list.splits)
  let ?f = "\<lambda>x best. if fv_version x > fv_version best then x else best"
  have l: "l = fold ?f rs r" using assms f by (simp add: findFirstLatest_def)
  have mem: "l \<in> set (r # rs)" and mx: "\<forall>x \<in> set (r # rs). fv_version x \<le> fv_version l"
    using fold_latest [of rs r] l by auto
  have s: "set (r # rs) = {x \<in> set tbl. fv_fileKey x = k}"
    using f by (metis set_filter)
  show "l \<in> set tbl" "fv_fileKey l = k" using mem s by auto
  show "\<forall>r \<in> set tbl. fv_fileKey r = k \<longrightarrow> fv_version r \<le> fv_version l"
    using mx s by auto
qed

lemma orZero_id: "orZero x = x"
  by (simp add: orZero_def)

text \<open>The two outcomes of a put.\<close>

lemma storeFileVersion_unchanged:
  assumes "findFirstLatest tbl k = Some l" and "fv_hash l = sha256hex c"
  shows "storeFileVersion sha256hex u k n c tbl
           = (\<lparr>changed = False, version = fv_version l, sr_id = None\<rparr>, tbl)"
  using assms by (simp add: storeFileVersion_def generateContentHash_def Let_def)

lemma storeFileVersion_first:
  assumes "findFirstLatest tbl k = None"
  shows "storeFileVersion sha256hex u k n c tbl
           = (\<lparr>changed = True, version = 1, sr_id = Some (length tbl)\<rparr>,
              tbl @ [newRow sha256hex u k n c tbl 1])"
  using assms by (simp add: storeFileVersion_def generateContentHash_def Let_def newRow_def)

lemma storeFileVersion_next:
  assumes "findFirstLatest tbl k = Some l" and "fv_hash l \<noteq> sha256hex c"
  shows "storeFileVersion sha256hex u k n c tbl
           = (\<lparr>changed = True, version = fv_version l + 1, sr_id = Some (length tbl)\<rparr>,
              tbl @ [newRow sha256hex u k n c tbl (fv_version l + 1)])"
  using assms
  by (simp add: storeFileVersion_def generateContentHash_def Let_def newRow_def orZero_id)

text \<open>After a put that stored a row, that row is the latest of its key.\<close>

lemma findFirstLatest_appended:
  assumes "\<forall>r \<in> set tbl. fv_fileKey r = k \<longrightarrow> fv_version r < fv_version row"
    and "fv_fileKey row = k"
  shows "findFirstLatest (tbl @ [row]) k = Some row"
proof -
  have "versionsOf (tbl @ [row]) k \<noteq> []" using assms by (simp add: versionsOf_def)
  then obtain l where l: "findFirstLatest (tbl @ [row]) k = Some l"
    using findFirstLatest_None [of "tbl @ [row]" k] by (cases "findFirstLatest (tbl @ [row]) k") auto
  from findFirstLatest_Some [OF l]
  have mem: "l \<in> set (tbl @ [row])" and key: "fv_fileKey l = k"
    and mx: "\<forall>r \<in> set (tbl @ [row]). fv_fileKey r = k \<longrightarrow> fv_version r \<le> fv_version l"
    by auto
  have "fv_version row \<le> fv_version l" using mx assms(2) by simp
  then have "l = row" using mem key assms(1) by auto
  with l show ?thesis by simp
qed

lemma store_then_latest:
  "\<exists>l. findFirstLatest (snd (storeFileVersion sha256hex u k n c tbl)) k = Some l
       \<and> fv_hash l = sha256hex c
       \<and> fv_version l = version (fst (storeFileVersion sha256hex u k n c tbl))"
proof (cases "findFirstLatest tbl k")
  case None
  then have "\<forall>r \<in> set tbl. fv_fileKey r \<noteq> k"
    by (auto simp: findFirstLatest_None versionsOf_def filter_empty_conv)
  then have "findFirstLatest (tbl @ [newRow sha256hex u k n c tbl 1]) k
               = Some (newRow sha256hex u k n c tbl 1)"
    by (intro findFirstLatest_appended) (auto simp: newRow_def)
  then show ?thesis
    by (simp add: storeFileVersion_first [OF None] newRow_def)
next
  case (Some l)
  show ?thesis
  proof (cases "fv_hash l = sha256hex c")
    case True
    then show ?thesis by (simp add: storeFileVersion_unchanged [where sha256hex = sha256hex and c = c, OF Some True] Some)
  next
    case False
    have "\<forall>r \<in> set tbl. fv_fileKey r = k \<longrightarrow> fv_version r < fv_version l + 1"
      using findFirstLatest_Some(3) [OF Some] by auto
    then have "findFirstLatest (tbl @ [newRow sha256hex u k n c tbl (fv_version l + 1)]) k
               = Some (newRow sha256hex u k n c tbl (fv_version l + 1))"
      by (intro findFirstLatest_appended) (auto simp: newRow_def)
    then show ?thesis
      by (simp add: storeFileVersion_next [where sha256hex = sha256hex and c = c, OF Some False] newRow_def)
  qed
qed


text \<open>
  Claim C4. A second put of the same content for the same key is a no-op: it answers
  \<open>changed = false\<close> with the version number the first put answered, it leaves the
  table as it is (no row is created), and the latest version number of the key is still
  that number.
\<close>

theorem storeFileVersion_idempotent:
  "let first = storeFileVersion sha256hex u k n c tbl;
       second = storeFileVersion sha256hex u' k n' c (snd first)
   in fst second = \<lparr>changed = False, version = version (fst first), sr_id = None\<rparr>
      \<and> snd second = snd first
      \<and> map_option fv_version (findFirstLatest (snd second) k)
          = map_option fv_version (findFirstLatest (snd first) k)
      \<and> map_option fv_version (findFirstLatest (snd first) k) = Some (version (fst first))"
proof -
  obtain l where l: "findFirstLatest (snd (storeFileVersion sha256hex u k n c tbl)) k = Some l"
    and h: "fv_hash l = sha256hex c"
    and v: "fv_version l = version (fst (storeFileVersion sha256hex u k n c tbl))"
    using store_then_latest by blast
  show ?thesis
    by (simp add: Let_def storeFileVersion_unchanged [where sha256hex = sha256hex and c = c, OF l h] l v)
qed

lemma sample_first_put:
  "storeFileVersion sha256Sample ''u1'' ''u1/app.js'' ''app.js'' ''a'' []
     = (\<lparr>changed = True, version = 1, sr_id = Some 0\<rparr>,
        [newRow sha256Sample ''u1'' ''u1/app.js'' ''app.js'' ''a'' [] 1])"
  by (simp add: storeFileVersion_first findFirstLatest_def)

theorem storeFileVersion_idempotent_witness:
  "fst (storeFileVersion sha256Sample ''u1'' ''u1/app.js'' ''app.js'' ''a'' [])
     = \<lparr>changed = True, version = 1, sr_id = Some 0\<rparr>
   \<and> storeFileVersion sha256Sample ''u2'' ''u1/app.js'' ''app.js'' ''a''
         (snd (storeFileVersion sha256Sample ''u1'' ''u1/app.js'' ''app.js'' ''a'' []))
     = (\<lparr>changed = False, version = 1, sr_id = None\<rparr>,
        [newRow sha256Sample ''u1'' ''u1/app.js'' ''app.js'' ''a'' [] 1])"
  using storeFileVersion_idempotent
    [where sha256hex = sha256Sample and u = "''u1''" and k = "''u1/app.js''"
       and n = "''app.js''" and c = "''a''" and tbl = "[]" and u' = "''u2''"
       and n' = "''app.js''"]
  by (simp add: Let_def sample_first_put prod_eq_iff)

lemma versionsOf_append:
  "versionsOf (tbl @ [row]) k'
     = (if fv_fileKey row = k' then versionsOf tbl k' @ [fv_version row] else versionsOf tbl k')"
  by (simp add: versionsOf_def)

lemma gapless_latest:
  assumes g: "gapless tbl k" and l: "findFirstLatest tbl k = Some l"
  shows "fv_version l = int (length (versionsOf tbl k))"
proof -
  define m where "m = length (versionsOf tbl k)"
  have vs: "versionsOf tbl k = map int [1 ..< Suc m]"
    using g by (simp add: gapless_def m_def)
  have ne: "versionsOf tbl k \<noteq> []" using l findFirstLatest_None [of tbl k] by auto
  then have pos: "0 < m" by (simp add: m_def)
  have "fv_version l \<in> set (versionsOf tbl k)"
    using findFirstLatest_Some(1,2) [OF l] by (auto simp: versionsOf_def)
  then have up: "fv_version l \<le> int m" unfolding vs by (auto simp del: upt_Suc)
  have "int m \<in> set (versionsOf tbl k)"
    unfolding vs using pos by (auto simp del: upt_Suc)
  then obtain r where "r \<in> set tbl" "fv_fileKey r = k" "fv_version r = int m"
    by (auto simp: versionsOf_def)
  then have "int m \<le> fv_version l" using findFirstLatest_Some(3) [OF l] by auto
  with up show ?thesis by (simp add: m_def)
qed

lemma gapless_snoc:
  assumes "gapless tbl k" and "v = int (length (versionsOf tbl k)) + 1"
  shows "versionsOf tbl k @ [v] = map int [1 ..< Suc (length (versionsOf tbl k @ [v]))]"
proof -
  define m where "m = length (versionsOf tbl k)"
  have vs: "versionsOf tbl k = map int [1 ..< Suc m]"
    using assms(1) by (simp add: gapless_def m_def)
  have v: "v = int (Suc m)" using assms(2) by (simp add: m_def)
  have len: "length (versionsOf tbl k @ [v]) = Suc m" by (simp add: m_def)
  have "map int [1 ..< Suc m] @ [int (Suc m)] = map int [1 ..< Suc (Suc m)]" by simp
  then have "versionsOf tbl k @ [v] = map int [1 ..< Suc (Suc m)]"
    by (simp only: vs v)
  then show ?thesis unfolding len .
qed

lemma storeFileVersion_gapless:
  assumes g: "gapless tbl k'"
  shows "gapless (snd (storeFileVersion sha256hex u k n c tbl)) k'"
proof (cases "findFirstLatest tbl k")
  case None
  show ?thesis
  proof (cases "k' = k")
    case True
    have "versionsOf tbl k = []" using None by (simp add: findFirstLatest_None)
    then show ?thesis
      using True by (simp add: storeFileVersion_first [OF None] gapless_def
          versionsOf_append newRow_def)
  next
    case False
    then show ?thesis
      using g by (simp add: storeFileVersion_first [OF None] gapless_def
          versionsOf_append newRow_def)
  qed
next
  case (Some l)
  show ?thesis
  proof (cases "fv_hash l = sha256hex c")
    case True
    then show ?thesis
      using g by (simp add: storeFileVersion_unchanged [where sha256hex = sha256hex and c = c, OF Some True])
  next
    case False
    show ?thesis
    proof (cases "k' = k")
      case True
      have v: "fv_version l + 1 = int (length (versionsOf tbl k)) + 1"
        using gapless_latest [OF _ Some] g True by simp
      have "versionsOf tbl k @ [fv_version l + 1]
              = map int [1 ..< Suc (length (versionsOf tbl k @ [fv_version l + 1]))]"
        using gapless_snoc [OF _ v] g True by simp
      then show ?thesis
        using True
        by (simp add: storeFileVersion_next [where sha256hex = sha256hex and c = c, OF Some False]
            gapless_def versionsOf_append newRow_def)
    next
      case False
      then show ?thesis
        using g
        by (simp add: storeFileVersion_next [where sha256hex = sha256hex and c = c, OF Some \<open>fv_hash l \<noteq> sha256hex c\<close>]
            gapless_def versionsOf_append newRow_def)
    qed
  qed
qed

lemma storeAll_gapless:
  "gapless tbl k \<Longrightarrow> gapless (storeAll sha256hex ps tbl) k"
  by (induction ps arbitrary: tbl) (simp_all add: storeFileVersion_gapless)

lemma gapless_empty: "gapless [] k"
  by (simp add: gapless_def versionsOf_def)

lemma gapless_increasing:
  "gapless tbl k \<Longrightarrow> sorted_wrt (<) (versionsOf tbl k)"
proof -
  assume "gapless tbl k"
  then have "versionsOf tbl k = map int [1 ..< Suc (length (versionsOf tbl k))]"
    by (simp add: gapless_def)
  moreover have "sorted_wrt (<) (map int [1 ..< Suc m])" for m
    by (simp add: sorted_wrt_map del: upt_Suc)
  ultimately show ?thesis by metis
qed


text \<open>
  Claim C5. Puts that run one after the other keep the version numbers of every key
  gapless and strictly increasing from 1: a put on a key without a stored version
  creates version 1; a put whose fingerprint differs from the latest version's creates
  the latest number plus 1; so after any list of puts on the empty table the numbers of
  a key are \<open>1, ..., n\<close> in the order of creation, and two puts on a fresh key with
  different fingerprints answer 1 and then 2.
\<close>

theorem version_numbers_gapless:
  "(gapless tbl k' \<longrightarrow> gapless (snd (storeFileVersion sha256hex u k n c tbl)) k')
   \<and> (findFirstLatest tbl k = None \<longrightarrow>
        storeFileVersion sha256hex u k n c tbl
          = (\<lparr>changed = True, version = 1, sr_id = Some (length tbl)\<rparr>,
             tbl @ [newRow sha256hex u k n c tbl 1]))
   \<and> (\<forall>l. findFirstLatest tbl k = Some l \<and> fv_hash l \<noteq> generateContentHash sha256hex c \<longrightarrow>
        storeFileVersion sha256hex u k n c tbl
          = (\<lparr>changed = True, version = fv_version l + 1, sr_id = Some (length tbl)\<rparr>,
             tbl @ [newRow sha256hex u k n c tbl (fv_version l + 1)]))
   \<and> gapless (storeAll sha256hex ps []) k'
   \<and> sorted_wrt (<) (versionsOf (storeAll sha256hex ps []) k')
   \<and> (findFirstLatest tbl k = None
        \<and> generateContentHash sha256hex ca \<noteq> generateContentHash sha256hex cb \<longrightarrow>
        version (fst (storeFileVersion sha256hex u k n ca tbl)) = 1
        \<and> version (fst (storeFileVersion sha256hex u' k n' cb
                           (snd (storeFileVersion sha256hex u k n ca tbl)))) = 2)"
proof -
  have inv: "gapless (storeAll sha256hex ps []) k'"
    by (rule storeAll_gapless [OF gapless_empty])
  have two: "version (fst (storeFileVersion sha256hex u k n ca tbl)) = 1
        \<and> version (fst (storeFileVersion sha256hex u' k n' cb
                           (snd (storeFileVersion sha256hex u k n ca tbl)))) = 2"
    if none: "findFirstLatest tbl k = None" and ne: "sha256hex ca \<noteq> sha256hex cb"
  proof -
    obtain l where l: "findFirstLatest (snd (storeFileVersion sha256hex u k n ca tbl)) k = Some l"
      and h: "fv_hash l = sha256hex ca"
      and v: "fv_version l = version (fst (storeFileVersion sha256hex u k n ca tbl))"
      using store_then_latest by blast
    have first: "version (fst (storeFileVersion sha256hex u k n ca tbl)) = 1"
      by (simp add: storeFileVersion_first [OF none])
    have "fv_hash l \<noteq> sha256hex cb" using h ne by simp
    from storeFileVersion_next [where sha256hex = sha256hex and c = cb, OF l this]
    show ?thesis using first v by simp
  qed
  show ?thesis
    using inv gapless_increasing [OF inv] two
    by (auto simp: storeFileVersion_gapless storeFileVersion_first generateContentHash_def
        storeFileVersion_next [where sha256hex = sha256hex and c = c])
qed

lemma sample_digests_differ:
  "generateContentHash sha256Sample ''a'' \<noteq> generateContentHash sha256Sample ''b''"
  by (simp add: generateContentHash_def sha256Sample_def)

lemma sample_latest:
  "findFirstLatest [newRow sha256Sample ''u1'' ''u1/app.js'' ''app.js'' ''a'' [] 1] ''u1/app.js''
     = Some (newRow sha256Sample ''u1'' ''u1/app.js'' ''app.js'' ''a'' [] 1)"
  by (simp add: findFirstLatest_def newRow_def)

theorem version_numbers_gapless_witness:
  "findFirstLatest [] ''u1/app.js'' = None
   \<and> generateContentHash sha256Sample ''a'' \<noteq> generateContentHash sha256Sample ''b''
   \<and> version (fst (storeFileVersion sha256Sample ''u1'' ''u1/app.js'' ''app.js'' ''a'' [])) = 1
   \<and> version (fst (storeFileVersion sha256Sample ''u1'' ''u1/app.js'' ''app.js'' ''b''
         (snd (storeFileVersion sha256Sample ''u1'' ''u1/app.js'' ''app.js'' ''a'' [])))) = 2
   \<and> gapless [] ''u1/app.js''
   \<and> gapless (snd (storeFileVersion sha256Sample ''u1'' ''u1/app.js'' ''app.js'' ''a'' []))
         ''u1/app.js''
   \<and> storeFileVersion sha256Sample ''u1'' ''u1/app.js'' ''app.js'' ''b''
         [newRow sha256Sample ''u1'' ''u1/app.js'' ''app.js'' ''a'' [] 1]
       = (\<lparr>changed = True, version = 2, sr_id = Some 1\<rparr>,
          [newRow sha256Sample ''u1'' ''u1/app.js'' ''app.js'' ''a'' [] 1,
           newRow sha256Sample ''u1'' ''u1/app.js'' ''app.js'' ''b''
             [newRow sha256Sample ''u1'' ''u1/app.js'' ''app.js'' ''a'' [] 1] 2])
   \<and> gapless (storeAll sha256Sample samplePuts []) ''u1/app.js''"
proof -
  have none: "findFirstLatest [] ''u1/app.js'' = None"
    by (simp add: findFirstLatest_def)
  have differ: "fv_hash (newRow sha256Sample ''u1'' ''u1/app.js'' ''app.js'' ''a'' [] 1)
                  \<noteq> generateContentHash sha256Sample ''b''"
    by (simp add: newRow_def generateContentHash_def sha256Sample_def)
  have fresh: "gapless [] ''u1/app.js''"
    by (simp add: gapless_def versionsOf_def)
  note empty = version_numbers_gapless
    [where sha256hex = sha256Sample and u = "''u1''" and k = "''u1/app.js''"
       and n = "''app.js''" and c = "''a''" and tbl = "[]" and k' = "''u1/app.js''"
       and ps = samplePuts and ca = "''a''" and cb = "''b''" and u' = "''u1''"
       and n' = "''app.js''"]
  note one = version_numbers_gapless
    [where sha256hex = sha256Sample and u = "''u1''" and k = "''u1/app.js''"
       and n = "''app.js''" and c = "''b''"
       and tbl = "[newRow sha256Sample ''u1'' ''u1/app.js'' ''app.js'' ''a'' [] 1]"
       and k' = "''u1/app.js''" and ps = samplePuts and ca = "''a''" and cb = "''b''"
       and u' = "''u1''" and n' = "''app.js''"]
  have g1: "gapless (snd (storeFileVersion sha256Sample ''u1'' ''u1/app.js'' ''app.js'' ''a'' []))
              ''u1/app.js''"
    using empty [THEN conjunct1] fresh by simp
  have two: "version (fst (storeFileVersion sha256Sample ''u1'' ''u1/app.js'' ''app.js'' ''a'' [])) = 1
     \<and> version (fst (storeFileVersion sha256Sample ''u1'' ''u1/app.js'' ''app.js'' ''b''
           (snd (storeFileVersion sha256Sample ''u1'' ''u1/app.js'' ''app.js'' ''a'' [])))) = 2"
    using empty none sample_digests_differ by blast
  have next_row: "storeFileVersion sha256Sample ''u1'' ''u1/app.js'' ''app.js'' ''b''
         [newRow sha256Sample ''u1'' ''u1/app.js'' ''app.js'' ''a'' [] 1]
       = (\<lparr>changed = True, version = 2, sr_id = Some 1\<rparr>,
          [newRow sha256Sample ''u1'' ''u1/app.js'' ''app.js'' ''a'' [] 1,
           newRow sha256Sample ''u1'' ''u1/app.js'' ''app.js'' ''b''
             [newRow sha256Sample ''u1'' ''u1/app.js'' ''app.js'' ''a'' [] 1] 2])"
  proof -
    have "storeFileVersion sha256Sample ''u1'' ''u1/app.js'' ''app.js'' ''b''
         [newRow sha256Sample ''u1'' ''u1/app.js'' ''app.js'' ''a'' [] 1]
       = (\<lparr>changed = True,
           version = fv_version (newRow sha256Sample ''u1'' ''u1/app.js'' ''app.js'' ''a'' [] 1) + 1,
           sr_id = Some (length [newRow sha256Sample ''u1'' ''u1/app.js'' ''app.js'' ''a'' [] 1])\<rparr>,
          [newRow sha256Sample ''u1'' ''u1/app.js'' ''app.js'' ''a'' [] 1]
          @ [newRow sha256Sample ''u1'' ''u1/app.js'' ''app.js'' ''b''
             [newRow sha256Sample ''u1'' ''u1/app.js'' ''app.js'' ''a'' [] 1]
             (fv_version (newRow sha256Sample ''u1'' ''u1/app.js'' ''app.js'' ''a'' [] 1) + 1)])"
      using one sample_latest differ by blast
    moreover have "fv_version (newRow sha256Sample ''u1'' ''u1/app.js'' ''app.js'' ''a'' [] 1) = 1"
      by (simp add: newRow_def)
    ultimately show ?thesis by simp
  qed
  have all: "gapless (storeAll sha256Sample samplePuts []) ''u1/app.js''"
    using empty by blast
  from none sample_digests_differ two fresh g1 next_row all
  show ?thesis by blast
qed

section \<open>The incremental review route\<close>

lemma set_distinctInOrder: "set (distinctInOrder seen xs) = set xs - set seen"
  by (induction seen xs rule: distinctInOrder.induct) auto

lemma filterIncremental_window:
  "filterIncremental changedLines iss = filter (withinWindow changedLines) iss"
proof -
  have "list_ex (\<lambda>lineNum. \<bar>line i - lineNum\<bar> \<le> 2)
          (distinctInOrder [] (map lineNumber changedLines)) = withinWindow changedLines i" for i
    by (auto simp: list_ex_iff set_distinctInOrder withinWindow_def)
  then show ?thesis by (simp add: filterIncremental_def Let_def)
qed

lemma POST_no_version:
  assumes "auth = Some usr" and "body = Some req" and "req_fileKey req = Some k" and "k \<noteq> []"
    and "getFileContent st k = Some content"
    and "getLatestFileVersion (fileVersions st) k = None"
  shows "POST_incremental rt calculateDiff getChangedLines auth body st = (RequiresFullReview, st)"
  using assms by (simp add: POST_incremental_def)

lemma POST_no_changes:
  assumes "auth = Some usr" and "body = Some req" and "req_fileKey req = Some k" and "k \<noteq> []"
    and "getFileContent st k = Some content"
    and "getLatestFileVersion (fileVersions st) k = Some prev"
    and "getChangedLines (calculateDiff (fv_content prev) content) = []"
  shows "POST_incremental rt calculateDiff getChangedLines auth body st
           = (NoChanges (noChangesBody (req_fileName req) k content), st)"
  using assms by (simp add: POST_incremental_def noChangesBody_def Let_def)

lemma analyzeCode_not_exported: "codeReviewRoute ''analyzeCode'' = None"
  by (simp add: codeReviewRoute_def)

lemma POST_changes:
  assumes "auth = Some usr" and "body = Some req" and "req_fileKey req = Some k" and "k \<noteq> []"
    and "getFileContent st k = Some content"
    and "getLatestFileVersion (fileVersions st) k = Some prev"
    and "getChangedLines (calculateDiff (fv_content prev) content) \<noteq> []"
  shows "POST_incremental rt calculateDiff getChangedLines auth body st = (Failed, st)"
  using assms by (simp add: POST_incremental_def Let_def analyzeCode_not_exported)



text \<open>
  Claim C7. When the request is authenticated, names a file key and the blob is read,
  and no version is stored for the key, the route answers \<open>requiresFullReview\<close> and
  leaves the state as it is: nothing is written, and the answer does not depend on the
  diff engine or on the runtime of the analyzer, neither of which is called.
\<close>

theorem requires_full_review:
  assumes "auth = Some usr" and "body = Some req" and "req_fileKey req = Some k" and "k \<noteq> []"
    and "getFileContent st k = Some content"
    and "getLatestFileVersion (fileVersions st) k = None"
  shows "POST_incremental rt calculateDiff getChangedLines auth body st = (RequiresFullReview, st)"
  using assms by (rule POST_no_version)

theorem requires_full_review_witness:
  "POST_incremental rtVar sampleDiff (\<lambda>d. d) (Some sampleUser) (Some jsRequest)
     \<lparr>blobs = [''u1/app.js'' \<mapsto> sampleJs], fileVersions = [], reviews = []\<rparr>
   = (RequiresFullReview,
      \<lparr>blobs = [''u1/app.js'' \<mapsto> sampleJs], fileVersions = [], reviews = []\<rparr>)"
  by (rule requires_full_review [where usr = sampleUser and req = jsRequest
        and k = "''u1/app.js''" and content = sampleJs])
     (simp_all add: jsRequest_def getFileContent_def getLatestFileVersion_def
        findFirstLatest_def)

text \<open>
  Claim C6. When a version is stored for the key and the diff of its content against the
  current content has no changed line, the route answers \<open>noChanges\<close>: the issue set
  and the changed-line set are empty, the four incremental figures are 0, and the state
  is left as it is (no review is written). The answer is the same for every runtime of
  the analyzer, which is not called.
\<close>

theorem no_changes_short_circuit:
  assumes "auth = Some usr" and "body = Some req" and "req_fileKey req = Some k" and "k \<noteq> []"
    and "getFileContent st k = Some content"
    and "getLatestFileVersion (fileVersions st) k = Some prev"
    and "getChangedLines (calculateDiff (fv_content prev) content) = []"
  shows "\<exists>b. POST_incremental rt calculateDiff getChangedLines auth body st = (NoChanges b, st)
           \<and> rb_issues b = [] \<and> rb_changedLines b = []
           \<and> incremental (rb_metrics b)
               = \<lparr>linesChanged = 0, linesAdded = 0, linesDeleted = 0, issuesFound = 0\<rparr>
           \<and> POST_incremental rt' calculateDiff getChangedLines auth body st = (NoChanges b, st)"
proof -
  have "POST_incremental r calculateDiff getChangedLines auth body st
          = (NoChanges (noChangesBody (req_fileName req) k content), st)" for r
    using assms by (rule POST_no_changes)
  then show ?thesis by (simp add: noChangesBody_def)
qed

lemma sampleJs_lines: "split (CHR 0x0A) sampleJs = sampleJsLines"
  by code_simp

lemma sampleDiff_same: "sampleDiff sampleJs sampleJs = []"
  by (simp add: sampleDiff_def sampleJs_lines sampleJsLines_def eval_nat_numeral)

theorem no_changes_short_circuit_witness:
  "POST_incremental rtVar sampleDiff (\<lambda>d. d) (Some sampleUser) (Some jsRequest)
     (sampleStore ''u1/app.js'' ''app.js'' sampleJs sampleJs)
   = (NoChanges (noChangesBody (Some ''app.js'') ''u1/app.js'' sampleJs),
      sampleStore ''u1/app.js'' ''app.js'' sampleJs sampleJs)
   \<and> reviews (sampleStore ''u1/app.js'' ''app.js'' sampleJs sampleJs) = []"
proof -
  have "\<exists>b. POST_incremental rtVar sampleDiff (\<lambda>d. d) (Some sampleUser) (Some jsRequest)
            (sampleStore ''u1/app.js'' ''app.js'' sampleJs sampleJs)
          = (NoChanges b, sampleStore ''u1/app.js'' ''app.js'' sampleJs sampleJs)
        \<and> rb_issues b = [] \<and> rb_changedLines b = []
        \<and> incremental (rb_metrics b)
            = \<lparr>linesChanged = 0, linesAdded = 0, linesDeleted = 0, issuesFound = 0\<rparr>
        \<and> POST_incremental rtVar sampleDiff (\<lambda>d. d) (Some sampleUser) (Some jsRequest)
            (sampleStore ''u1/app.js'' ''app.js'' sampleJs sampleJs)
          = (NoChanges b, sampleStore ''u1/app.js'' ''app.js'' sampleJs sampleJs)"
    by (rule no_changes_short_circuit [where usr = sampleUser and req = jsRequest
          and k = "''u1/app.js''" and content = sampleJs
          and prev = "hd (fileVersions (sampleStore ''u1/app.js'' ''app.js'' sampleJs sampleJs))"])
       (simp_all add: jsRequest_def getFileContent_def getLatestFileVersion_def
          findFirstLatest_def sampleStore_def sampleDiff_same)
  then obtain b where
    "POST_incremental rtVar sampleDiff (\<lambda>d. d) (Some sampleUser) (Some jsRequest)
            (sampleStore ''u1/app.js'' ''app.js'' sampleJs sampleJs)
          = (NoChanges b, sampleStore ''u1/app.js'' ''app.js'' sampleJs sampleJs)"
    by blast
  moreover have
    "POST_incremental rtVar sampleDiff (\<lambda>d. d) (Some sampleUser) (Some jsRequest)
            (sampleStore ''u1/app.js'' ''app.js'' sampleJs sampleJs)
          = (NoChanges (noChangesBody (Some ''app.js'') ''u1/app.js'' sampleJs),
             sampleStore ''u1/app.js'' ''app.js'' sampleJs sampleJs)"
    using POST_no_changes [where usr = sampleUser and req = jsRequest
          and k = "''u1/app.js''" and content = sampleJs and auth = "Some sampleUser"
          and body = "Some jsRequest" and getChangedLines = "\<lambda>d. d"
          and calculateDiff = sampleDiff and rt = rtVar
          and st = "sampleStore ''u1/app.js'' ''app.js'' sampleJs sampleJs"
          and prev = "hd (fileVersions (sampleStore ''u1/app.js'' ''app.js'' sampleJs sampleJs))"]
    by (simp add: jsRequest_def getFileContent_def getLatestFileVersion_def
          findFirstLatest_def sampleStore_def sampleDiff_same)
  ultimately show ?thesis by (simp add: sampleStore_def)
qed

text \<open>
  The filter of the route, as it is written, keeps an issue exactly when its line is at
  most 2 lines from a changed line. At the sample, line 8 of the stored version differs
  from the current content, and the full analysis of the current content has an issue on
  line 10 and one on line 0.
\<close>

lemma changed_at_8:
  "sampleDiff (sampleJsBefore 8) sampleJs = [\<lparr>lineNumber = 8, changeType = ''modified''\<rparr>]"
proof -
  have l: "split (CHR 0x0A) (sampleJsBefore 8) = sampleJsLines[7 := ''g();'']"
    unfolding sampleJsBefore_def by code_simp
  show ?thesis
    unfolding sampleDiff_def l sampleJs_lines
    by (simp add: sampleJsLines_def eval_nat_numeral)
qed

lemma sampleJs_issues:
  "crIssues (analyzeCode rtVar sampleJs ''app.js'') = [varIssueAt10, unusedIssueX]"
proof -
  have d: "regexMatchAll rtVar RxDeclaration sampleJs = [''var x'']"
    and w: "regexMatchAll rtVar (RxWord ''x'') sampleJs = [''x'']"
    by (simp_all add: rtVar_def)
  have u: "unusedVariables rtVar sampleJs iss = iss @ [unusedIssueX]" for iss
    by (simp add: unusedVariables_def Let_def d w secondWord_def isWhiteSpace_def
        unusedIssueX_def)
  have t: "regexTest rtVar p l = (p = RxVar \<and> includes_str l ''var '')" for p l
    by (simp add: rtVar_def)
  have a: "acornParse rtVar sampleJs = None"
    by (simp add: rtVar_def)
  have sz: "checkFileSize sampleJs iss = iss" for iss
    by (simp add: checkFileSize_def byteLength_def sampleJs_def sampleJsLines_def
        eval_nat_numeral)
  have em: "checkEmptyFile sampleJs iss = iss" for iss
    by (simp add: checkEmptyFile_def trim_def isWhiteSpace_def sampleJs_def sampleJsLines_def
        eval_nat_numeral)
  show ?thesis
    by (simp add: analyzeCode_def Let_def sampleJs_lines pop_def toLowerCase_def
        checkTrailingWhitespace_def sz checkLongLines_def em
        analyzeJavaScript_def syntaxCheck_def u t a
        forEachLine_def sampleJsLines_def eval_nat_numeral varIssueAt10_def
        endsWith_def missingSemicolon_def trim_def isWhiteSpace_def searchNonSpace_def)
qed

lemma sample_filter:
  "filterIncremental [\<lparr>lineNumber = 8, changeType = ''modified''\<rparr>]
     [varIssueAt10, unusedIssueX] = [varIssueAt10]"
  by (simp add: filterIncremental_def varIssueAt10_def unusedIssueX_def)

text \<open>
  Claim C2 fails on the code. After a diff with at least one changed line the route calls
  \<open>analyzeCode\<close>, a name that the module it is imported from does not export: the call
  throws, and the route answers with status 500. Its filter never runs, the answer has no
  issue set and no review is stored. At the sample a change on line 8 should keep the
  issue on line 10, which the filter would do; the answer is \<open>Failed\<close> and the state is
  the one before the call.
\<close>

theorem incremental_review_fails:
  "sampleDiff (sampleJsBefore 8) sampleJs = [\<lparr>lineNumber = 8, changeType = ''modified''\<rparr>]
   \<and> crIssues (analyzeCode rtVar sampleJs ''app.js'') = [varIssueAt10, unusedIssueX]
   \<and> line varIssueAt10 = 10
   \<and> filterIncremental [\<lparr>lineNumber = 8, changeType = ''modified''\<rparr>]
         (crIssues (analyzeCode rtVar sampleJs ''app.js'')) = [varIssueAt10]
   \<and> POST_incremental rtVar sampleDiff (\<lambda>d. d) (Some sampleUser) (Some jsRequest)
         (sampleStore ''u1/app.js'' ''app.js'' (sampleJsBefore 8) sampleJs)
       = (Failed, sampleStore ''u1/app.js'' ''app.js'' (sampleJsBefore 8) sampleJs)"
proof -
  have "POST_incremental rtVar sampleDiff (\<lambda>d. d) (Some sampleUser) (Some jsRequest)
         (sampleStore ''u1/app.js'' ''app.js'' (sampleJsBefore 8) sampleJs)
       = (Failed, sampleStore ''u1/app.js'' ''app.js'' (sampleJsBefore 8) sampleJs)"
    by (rule POST_changes [where usr = sampleUser and req = jsRequest
          and k = "''u1/app.js''" and content = sampleJs
          and prev = "hd (fileVersions
                 (sampleStore ''u1/app.js'' ''app.js'' (sampleJsBefore 8) sampleJs))"])
       (simp_all add: jsRequest_def getFileContent_def getLatestFileVersion_def
          findFirstLatest_def sampleStore_def changed_at_8)
  then show ?thesis
    by (simp add: changed_at_8 sampleJs_issues sample_filter) (simp add: varIssueAt10_def)
qed






section \<open>Line numbers of the multi-dimensional analyzer\<close>

lemma forEachLine_all:
  assumes "\<And>l index. list_all P (f l index)"
  shows "list_all P (forEachLine lines f)"
  using assms by (auto simp: forEachLine_def list_all_iff)

lemma push_all:
  "list_all P xs \<Longrightarrow> list_all P (issues (linting a))
     \<Longrightarrow> list_all P (issues (linting (pushLinting xs a)))"
  "list_all P xs \<Longrightarrow> list_all P (issues (security a))
     \<Longrightarrow> list_all P (issues (security (pushSecurity xs a)))"
  "list_all P xs \<Longrightarrow> list_all P (issues (architecture a))
     \<Longrightarrow> list_all P (issues (architecture (pushArchitecture xs a)))"
  "list_all P xs \<Longrightarrow> list_all P (issues (quality a))
     \<Longrightarrow> list_all P (issues (quality (pushQuality xs a)))"
  "list_all P xs \<Longrightarrow> list_all P (docIssues (documentation a))
     \<Longrightarrow> list_all P (docIssues (documentation (pushDocIssues xs a)))"
  "list_all P xs \<Longrightarrow> list_all P (suggestions (documentation a))
     \<Longrightarrow> list_all P (suggestions (documentation (pushSuggestions xs a)))"
  "list_all P (docIssues (documentation a))
     \<Longrightarrow> list_all P (docIssues (documentation (pushSuggestions xs a)))"
  "list_all P (suggestions (documentation a))
     \<Longrightarrow> list_all P (suggestions (documentation (pushDocIssues xs a)))"
  by (simp_all add: pushLinting_def pushSecurity_def pushArchitecture_def pushQuality_def
      pushDocIssues_def pushSuggestions_def)

lemma if_all:
  "(c \<Longrightarrow> list_all P (issues (linting x))) \<Longrightarrow> (\<not> c \<Longrightarrow> list_all P (issues (linting y)))
     \<Longrightarrow> list_all P (issues (linting (if c then x else y)))"
  "(c \<Longrightarrow> list_all P (issues (security x))) \<Longrightarrow> (\<not> c \<Longrightarrow> list_all P (issues (security y)))
     \<Longrightarrow> list_all P (issues (security (if c then x else y)))"
  "(c \<Longrightarrow> list_all P (issues (architecture x)))
     \<Longrightarrow> (\<not> c \<Longrightarrow> list_all P (issues (architecture y)))
     \<Longrightarrow> list_all P (issues (architecture (if c then x else y)))"
  "(c \<Longrightarrow> list_all P (issues (quality x))) \<Longrightarrow> (\<not> c \<Longrightarrow> list_all P (issues (quality y)))
     \<Longrightarrow> list_all P (issues (quality (if c then x else y)))"
  "(c \<Longrightarrow> list_all P (docIssues (documentation x)))
     \<Longrightarrow> (\<not> c \<Longrightarrow> list_all P (docIssues (documentation y)))
     \<Longrightarrow> list_all P (docIssues (documentation (if c then x else y)))"
  "(c \<Longrightarrow> list_all P (suggestions (documentation x)))
     \<Longrightarrow> (\<not> c \<Longrightarrow> list_all P (suggestions (documentation y)))
     \<Longrightarrow> list_all P (suggestions (documentation (if c then x else y)))"
  by simp_all

lemma initial_all:
  "list_all P (issues (linting initialAnalysis))"
  "list_all P (issues (security initialAnalysis))"
  "list_all P (issues (architecture initialAnalysis))"
  "list_all P (issues (quality initialAnalysis))"
  "list_all P (docIssues (documentation initialAnalysis))"
  "list_all P (suggestions (documentation initialAnalysis))"
  by (simp_all add: initialAnalysis_def)

lemma lintJavaScript_positive:
  assumes "\<And>e loc. acornParse rt content = Some e \<Longrightarrow> err_loc e = Some loc \<Longrightarrow> 1 \<le> pos_line loc"
    and "list_all positiveLine (issues (linting a))"
  shows "list_all positiveLine (issues (linting (lintJavaScript rt content lines a)))"
proof (cases "acornParse rt content")
  case None
  then show ?thesis
    unfolding lintJavaScript_def Let_def using assms(2)
    by (simp add: pushLinting_def) (intro conjI forEachLine_all; simp add: positiveLine_def)
next
  case (Some e)
  show ?thesis
  proof (cases "err_loc e")
    case None
    then show ?thesis
      unfolding lintJavaScript_def Let_def using assms(2) Some
      by (simp add: pushLinting_def) (intro conjI forEachLine_all; simp add: positiveLine_def)
  next
    case (Some loc)
    have "1 \<le> pos_line loc" using assms(1) \<open>acornParse rt content = Some e\<close> Some by simp
    then show ?thesis
      unfolding lintJavaScript_def Let_def using assms(2) Some \<open>acornParse rt content = Some e\<close>
      by (simp add: pushLinting_def) (intro conjI forEachLine_all; simp add: positiveLine_def)
  qed
qed

lemma lintingIssues_positive:
  assumes "\<And>e loc. acornParse rt content = Some e \<Longrightarrow> err_loc e = Some loc \<Longrightarrow> 1 \<le> pos_line loc"
  shows "list_all positiveLine (lintingIssues rt content lines ext)"
  unfolding lintingIssues_def performLintingAnalysis_def lintPython_def lintCSS_def Let_def
  by (intro if_all push_all forEachLine_all initial_all lintJavaScript_positive [OF assms];
      simp add: positiveLine_def)

lemma securityIssues_positive:
  "list_all positiveLine (securityIssues rt content lines ext)"
  unfolding securityIssues_def performSecurityAnalysis_def securityCheckJavaScript_def
    securityCheckPython_def Let_def
  by (intro if_all push_all forEachLine_all initial_all;
      simp add: positiveLine_def list_all_iff)

lemma architectureIssues_positive:
  "list_all positiveLine (architectureIssues rt content lines ext)"
  unfolding architectureIssues_def performArchitectureAnalysis_def Let_def
  by (intro if_all push_all forEachLine_all initial_all; simp add: positiveLine_def)

lemma duplicateStep_positive:
  "list_all positiveLine (snd st) \<Longrightarrow> list_all positiveLine (snd (duplicateStep lines i st))"
  by (simp add: duplicateStep_def Let_def positiveLine_def)

lemma duplicateBlocks_positive: "list_all positiveLine (duplicateBlocks lines)"
proof -
  have "list_all positiveLine (snd st)
          \<Longrightarrow> list_all positiveLine (snd (fold (duplicateStep lines) ns st))" for ns st
    by (induction ns arbitrary: st) (simp_all add: duplicateStep_positive)
  then show ?thesis by (simp add: duplicateBlocks_def)
qed

lemma longFunctionStep_positive:
  "list_all positiveLine (snd (snd st))
     \<Longrightarrow> list_all positiveLine (snd (snd (longFunctionStep rt il st)))"
  by (simp add: longFunctionStep_def Let_def positiveLine_def)

lemma longFunctions_positive: "list_all positiveLine (longFunctions rt lines)"
proof -
  have "list_all positiveLine (snd (snd st))
          \<Longrightarrow> list_all positiveLine (snd (snd (fold (longFunctionStep rt) ils st)))" for ils st
    by (induction ils arbitrary: st) (simp_all add: longFunctionStep_positive)
  then show ?thesis by (simp add: longFunctions_def)
qed

lemma qualityIssues_positive:
  "list_all positiveLine (qualityIssues rt content lines ext)"
  unfolding qualityIssues_def performQualityAnalysis_def Let_def
  by (intro if_all push_all forEachLine_all initial_all duplicateBlocks_positive
        longFunctions_positive;
      simp add: positiveLine_def)

lemma documentation_positive:
  "list_all positiveLine (documentationIssues rt content lines ext)"
  "list_all positiveLine (documentationSuggestions rt content lines ext)"
  unfolding documentationIssues_def documentationSuggestions_def
    performDocumentationAnalysis_def Let_def
  by (intro if_all push_all forEachLine_all initial_all; simp add: positiveLine_def)+


text \<open>
  Claim C10. Every issue the multi-dimensional analyzer emits has a line number of at
  least 1: each check reports \<open>index + 1\<close> for a line, or 1 for a finding on the whole
  file, and the long-function check reports \<open>functionStart + 1\<close> with \<open>functionStart\<close>
  not negative. The line of a syntax-error issue is the one \<open>acorn\<close> reports, and acorn
  counts lines from 1; that contract of the parser is the hypothesis. The combined list
  is the concatenation of the five dimensions' lists, and the documentation suggestions,
  which are not part of it, have line numbers of at least 1 as well.
\<close>

theorem issue_lines_positive:
  assumes "\<forall>e loc. acornParse rt content = Some e \<longrightarrow> err_loc e = Some loc
             \<longrightarrow> 1 \<le> pos_line loc"
  shows "(\<forall>i \<in> set (allIssues (analyzeCodeMultiDimensional rt content fileName)). 1 \<le> line i)
    \<and> (\<forall>i \<in> set (suggestions (documentation (analyzeCodeMultiDimensional rt content fileName))).
          1 \<le> line i)
    \<and> allIssues (analyzeCodeMultiDimensional rt content fileName)
        = issues (linting (analyzeCodeMultiDimensional rt content fileName))
          @ issues (security (analyzeCodeMultiDimensional rt content fileName))
          @ issues (architecture (analyzeCodeMultiDimensional rt content fileName))
          @ issues (quality (analyzeCodeMultiDimensional rt content fileName))
          @ docIssues (documentation (analyzeCodeMultiDimensional rt content fileName))"
proof -
  let ?lines = "split (CHR 0x0A) content" and ?ext = "fileExtensionOf fileName"
  have "list_all positiveLine
          (lintingIssues rt content ?lines ?ext @ securityIssues rt content ?lines ?ext
           @ architectureIssues rt content ?lines ?ext @ qualityIssues rt content ?lines ?ext
           @ documentationIssues rt content ?lines ?ext)"
    using lintingIssues_positive [of rt content ?lines ?ext] assms
    by (simp add: securityIssues_positive architectureIssues_positive qualityIssues_positive
        documentation_positive)
  moreover have "list_all positiveLine (documentationSuggestions rt content ?lines ?ext)"
    by (rule documentation_positive)
  ultimately show ?thesis
    by (simp add: analyze_structure Let_def list_all_iff positiveLine_def)
qed

lemma brokenJs_lines: "split (CHR 0x0A) brokenJs = [''var x = 1;'', ''var y = ;'']"
  by (simp add: brokenJs_def)

lemma app_js_extension: "fileExtensionOf ''app.js'' = ''js''"
  by (simp add: fileExtensionOf_def pop_def toLowerCase_def)

lemma brokenJs_linting:
  "map line (lintingIssues rtSyntaxError brokenJs (split (CHR 0x0A) brokenJs)
      (fileExtensionOf ''app.js'')) = [1, 2, 2]"
  by (simp add: lintingIssues_def performLintingAnalysis_def lintJavaScript_def Let_def
      pushLinting_def initialAnalysis_def brokenJs_lines app_js_extension forEachLine_def
      rtSyntaxError_def endsWith_def)

lemma brokenJs_security:
  "securityIssues rtSyntaxError brokenJs (split (CHR 0x0A) brokenJs)
      (fileExtensionOf ''app.js'') = []"
  by (simp add: securityIssues_def performSecurityAnalysis_def securityCheckJavaScript_def
      secretPatterns_def Let_def pushSecurity_def initialAnalysis_def brokenJs_lines
      app_js_extension forEachLine_def rtSyntaxError_def)

lemma brokenJs_architecture:
  "architectureIssues rtSyntaxError brokenJs (split (CHR 0x0A) brokenJs)
      (fileExtensionOf ''app.js'') = []"
  by (simp add: architectureIssues_def performArchitectureAnalysis_def Let_def
      pushArchitecture_def initialAnalysis_def brokenJs_lines forEachLine_def
      rtSyntaxError_def searchNonSpace_def isWhiteSpace_def)
     (simp add: brokenJs_def byteLength_def)

lemma brokenJs_quality:
  "qualityIssues rtSyntaxError brokenJs (split (CHR 0x0A) brokenJs)
      (fileExtensionOf ''app.js'') = []"
  by (simp add: qualityIssues_def performQualityAnalysis_def Let_def
      pushQuality_def initialAnalysis_def brokenJs_lines forEachLine_def
      rtSyntaxError_def duplicateBlocks_def longFunctions_def longFunctionStep_def
      countChar_def)

lemma brokenJs_documentation:
  "documentationIssues rtSyntaxError brokenJs (split (CHR 0x0A) brokenJs)
      (fileExtensionOf ''app.js'') = []"
  by (simp add: documentationIssues_def performDocumentationAnalysis_def Let_def
      pushDocIssues_def pushSuggestions_def initialAnalysis_def brokenJs_lines
      app_js_extension forEachLine_def rtSyntaxError_def)

theorem issue_lines_positive_witness:
  "list_all (\<lambda>i. 1 \<le> line i)
     (allIssues (analyzeCodeMultiDimensional rtSyntaxError brokenJs ''app.js''))
   \<and> map line (allIssues (analyzeCodeMultiDimensional rtSyntaxError brokenJs ''app.js''))
       = [1, 2, 2]"
proof -
  have parsed: "\<forall>e loc. acornParse rtSyntaxError brokenJs = Some e \<longrightarrow> err_loc e = Some loc
             \<longrightarrow> 1 \<le> pos_line loc"
    by (auto simp: rtSyntaxError_def)
  have "\<forall>i \<in> set (allIssues (analyzeCodeMultiDimensional rtSyntaxError brokenJs ''app.js'')).
           1 \<le> line i"
    using issue_lines_positive [where rt = rtSyntaxError and content = brokenJs
        and fileName = "''app.js''", OF parsed]
    by blast
  moreover have
    "map line (allIssues (analyzeCodeMultiDimensional rtSyntaxError brokenJs ''app.js''))
       = [1, 2, 2]"
    by (simp add: analyze_structure Let_def brokenJs_linting brokenJs_security
        brokenJs_architecture brokenJs_quality brokenJs_documentation)
  ultimately show ?thesis by (simp add: list_all_iff)
qed

lemma longFunctionStep_ignores_parser:
  "longFunctionStep (rt\<lparr>acornParse := f\<rparr>) = longFunctionStep rt"
  by (simp add: fun_eq_iff longFunctionStep_def Let_def)

lemma other_passes_ignore_parser:
  "securityIssues (rt\<lparr>acornParse := f\<rparr>) content lines ext = securityIssues rt content lines ext"
  "architectureIssues (rt\<lparr>acornParse := f\<rparr>) content lines ext
     = architectureIssues rt content lines ext"
  "qualityIssues (rt\<lparr>acornParse := f\<rparr>) content lines ext = qualityIssues rt content lines ext"
  "documentationIssues (rt\<lparr>acornParse := f\<rparr>) content lines ext
     = documentationIssues rt content lines ext"
  "documentationSuggestions (rt\<lparr>acornParse := f\<rparr>) content lines ext
     = documentationSuggestions rt content lines ext"
  "metricsOf (rt\<lparr>acornParse := f\<rparr>) content = metricsOf rt content"
  by (simp_all add: securityIssues_def performSecurityAnalysis_def securityCheckJavaScript_def
      securityCheckPython_def architectureIssues_def performArchitectureAnalysis_def
      qualityIssues_def performQualityAnalysis_def longFunctions_def
      longFunctionStep_ignores_parser
      documentationIssues_def documentationSuggestions_def performDocumentationAnalysis_def
      metricsOf_def calculateMetrics_def Let_def)


lemma lintJavaScript_throw:
  assumes "acornParse rt content = Some e"
  shows "\<exists>X. (\<forall>a. lintJavaScript rt content lines a
                   = pushLinting X (lintJavaScript (rt\<lparr>acornParse := \<lambda>_. None\<rparr>) content lines a))
           \<and> (err_loc e = None \<longrightarrow> X = [])
           \<and> (\<forall>loc. err_loc e = Some loc \<longrightarrow>
                  (\<exists>i. X = [i] \<and> severity i = Error \<and> line i = pos_line loc))"
proof (cases "err_loc e")
  case None
  have "\<forall>a. lintJavaScript rt content lines a
          = pushLinting [] (lintJavaScript (rt\<lparr>acornParse := \<lambda>_. None\<rparr>) content lines a)"
    using assms None by (simp add: lintJavaScript_def Let_def push_Nil)
  then show ?thesis using None by auto
next
  case (Some loc)
  let ?i = "\<lparr>type = ''linting'', category = Some ''syntax'', severity = Error,
             line = pos_line loc, message = ''Syntax error: '' @ err_message e,
             suggestion = ''Fix the syntax error to ensure code can be parsed'',
             autoFixable = Some False\<rparr>"
  have "\<forall>a. lintJavaScript rt content lines a
          = pushLinting [?i] (lintJavaScript (rt\<lparr>acornParse := \<lambda>_. None\<rparr>) content lines a)"
    using assms Some by (simp add: lintJavaScript_def Let_def)
  moreover have "severity ?i = Error" and "line ?i = pos_line loc" by simp_all
  ultimately show ?thesis using Some by (intro exI [where x = "[?i]"]) simp
qed

lemma lintingIssues_throw:
  assumes "acornParse rt content = Some e"
    and "ext \<in> set [''js'', ''jsx'', ''ts'', ''tsx'']"
  shows "\<exists>X. lintingIssues rt content lines ext
                = lintingIssues (rt\<lparr>acornParse := \<lambda>_. None\<rparr>) content lines ext @ X
           \<and> (err_loc e = None \<longrightarrow> X = [])
           \<and> (\<forall>loc. err_loc e = Some loc \<longrightarrow>
                  (\<exists>i. X = [i] \<and> severity i = Error \<and> line i = pos_line loc))"
proof -
  from lintJavaScript_throw [OF assms(1), where lines = lines]
  obtain X where all:
    "(\<forall>a. lintJavaScript rt content lines a
                   = pushLinting X (lintJavaScript (rt\<lparr>acornParse := \<lambda>_. None\<rparr>) content lines a))
     \<and> (err_loc e = None \<longrightarrow> X = [])
     \<and> (\<forall>loc. err_loc e = Some loc \<longrightarrow>
            (\<exists>i. X = [i] \<and> severity i = Error \<and> line i = pos_line loc))" ..
  have X: "lintJavaScript rt content lines a
             = pushLinting X (lintJavaScript (rt\<lparr>acornParse := \<lambda>_. None\<rparr>) content lines a)" for a
    using all [THEN conjunct1] by (rule spec)
  note n = all [THEN conjunct2, THEN conjunct1]
  note s = all [THEN conjunct2, THEN conjunct2]
  have "performLintingAnalysis rt content lines ext a
          = pushLinting X (performLintingAnalysis (rt\<lparr>acornParse := \<lambda>_. None\<rparr>) content lines ext a)"
    for a
    using assms(2) unfolding performLintingAnalysis_def Let_def
    by (simp only: if_True X)
  then have "lintingIssues rt content lines ext
                = lintingIssues (rt\<lparr>acornParse := \<lambda>_. None\<rparr>) content lines ext @ X"
    by (simp add: lintingIssues_def pushLinting_def)
  with n s show ?thesis by (intro exI [where x = X] conjI)
qed


lemma syntaxCheck_push:
  "syntaxCheck rt content iss = iss @ thrownSyntaxIssues rt content"
  by (simp add: thrownSyntaxIssues_def syntaxCheck_def split: option.splits)

lemma thrownSyntaxIssues_cases:
  assumes "acornParse rt content = Some e"
  shows "err_loc e = None \<longrightarrow> thrownSyntaxIssues rt content = []"
    and "\<forall>loc. err_loc e = Some loc \<longrightarrow>
           (\<exists>i. thrownSyntaxIssues rt content = [i] \<and> severity i = Error
                \<and> line i = pos_line loc)"
  using assms by (simp_all add: thrownSyntaxIssues_def syntaxCheck_def)

lemma thrownSyntaxIssues_parsed:
  "thrownSyntaxIssues (rt\<lparr>acornParse := \<lambda>_. None\<rparr>) content = []"
  by (simp add: thrownSyntaxIssues_def syntaxCheck_def)

lemma insert_middle:
  "\<exists>pre post. a @ b @ c @ d @ e @ u @ t @ n = pre @ post
     \<and> a @ b @ c @ d @ e @ x @ u @ t @ n = pre @ x @ post"
  by (rule exI [where x = "a @ b @ c @ d @ e"], rule exI [where x = "u @ t @ n"]) simp

lemma analyzeJavaScript_insert:
  assumes "regexTest r = regexTest rt" and "regexMatchAll r = regexMatchAll rt"
    and "thrownSyntaxIssues r content = []"
  shows "\<exists>pre post. analyzeJavaScript r content lines iss name = pre @ post
           \<and> analyzeJavaScript rt content lines iss name
               = pre @ thrownSyntaxIssues rt content @ post"
  unfolding analyzeJavaScript_def unusedVariables_def Let_def syntaxCheck_push assms
    append_Nil2 append_assoc
  by (rule insert_middle)

lemma analyzeCode_javascript:
  assumes "fileExtensionOf name \<in> set [''js'', ''jsx'', ''mjs'', ''cjs'', ''ts'', ''tsx'']"
  shows "\<exists>general. \<forall>r. crIssues (analyzeCode r content name)
           = analyzeJavaScript r content (split (CHR 0x0A) content) general name"
proof -
  have "fileExtensionOf name \<in> set [''js'', ''jsx'', ''mjs'', ''cjs'']
          \<or> fileExtensionOf name \<in> set [''ts'', ''tsx'']"
    using assms by auto
  then show ?thesis
    unfolding analyzeCode_def Let_def fileExtensionOf_def
    by (simp only: if_True codeReview.simps) blast
qed

lemma metrics_insert:
  "crTotalLines (calculateMetricsReview content lines (pre @ x @ post))
     = crTotalLines (calculateMetricsReview content lines (pre @ post))"
  "crCodeLines (calculateMetricsReview content lines (pre @ x @ post))
     = crCodeLines (calculateMetricsReview content lines (pre @ post))"
  "crCommentLines (calculateMetricsReview content lines (pre @ x @ post))
     = crCommentLines (calculateMetricsReview content lines (pre @ post))"
  "blankLines (calculateMetricsReview content lines (pre @ x @ post))
     = blankLines (calculateMetricsReview content lines (pre @ post))"
  "errorCount (calculateMetricsReview content lines (pre @ x @ post))
     = errorCount (calculateMetricsReview content lines (pre @ post))
       + int (length (filter (\<lambda>i. severity i = Error) x))"
  "warningCount (calculateMetricsReview content lines (pre @ x @ post))
     = warningCount (calculateMetricsReview content lines (pre @ post))
       + int (length (filter (\<lambda>i. severity i = Warning) x))"
  "infoCount (calculateMetricsReview content lines (pre @ x @ post))
     = infoCount (calculateMetricsReview content lines (pre @ post))
       + int (length (filter (\<lambda>i. severity i = Info) x))"
  by (simp_all add: calculateMetricsReview_def Let_def)

lemma analyzeCode_throw:
  assumes "fileExtensionOf name \<in> set [''js'', ''jsx'', ''mjs'', ''cjs'', ''ts'', ''tsx'']"
  shows "\<exists>pre post.
           analyzeCode (rt\<lparr>acornParse := \<lambda>_. None\<rparr>) content name
             = \<lparr>crIssues = pre @ post,
                crMetrics = calculateMetricsReview content (split (CHR 0x0A) content) (pre @ post)\<rparr>
         \<and> analyzeCode rt content name
             = \<lparr>crIssues = pre @ thrownSyntaxIssues rt content @ post,
                crMetrics = calculateMetricsReview content (split (CHR 0x0A) content)
                              (pre @ thrownSyntaxIssues rt content @ post)\<rparr>"
proof -
  from analyzeCode_javascript [OF assms, where content = content]
  obtain general where g: "\<forall>r. crIssues (analyzeCode r content name)
           = analyzeJavaScript r content (split (CHR 0x0A) content) general name" ..
  from analyzeJavaScript_insert [where r = "rt\<lparr>acornParse := \<lambda>_. None\<rparr>" and rt = rt
      and content = content and lines = "split (CHR 0x0A) content" and iss = general
      and name = name]
  obtain pre post where
    p: "analyzeJavaScript (rt\<lparr>acornParse := \<lambda>_. None\<rparr>) content (split (CHR 0x0A) content)
          general name = pre @ post
        \<and> analyzeJavaScript rt content (split (CHR 0x0A) content) general name
          = pre @ thrownSyntaxIssues rt content @ post"
    by (auto simp: thrownSyntaxIssues_parsed)
  have m: "crMetrics (analyzeCode r content name)
             = calculateMetricsReview content (split (CHR 0x0A) content)
                 (crIssues (analyzeCode r content name))" for r
    by (simp add: analyzeCode_def Let_def)
  have c0: "crIssues (analyzeCode (rt\<lparr>acornParse := \<lambda>_. None\<rparr>) content name) = pre @ post"
    using g [THEN spec, of "rt\<lparr>acornParse := \<lambda>_. None\<rparr>"] p [THEN conjunct1] by simp
  have c1: "crIssues (analyzeCode rt content name) = pre @ thrownSyntaxIssues rt content @ post"
    using g [THEN spec, of rt] p [THEN conjunct2] by simp
  have r0: "analyzeCode (rt\<lparr>acornParse := \<lambda>_. None\<rparr>) content name
             = \<lparr>crIssues = pre @ post,
                crMetrics = calculateMetricsReview content (split (CHR 0x0A) content) (pre @ post)\<rparr>"
    by (rule codeReview.equality) (simp_all add: m c0)
  have r1: "analyzeCode rt content name
             = \<lparr>crIssues = pre @ thrownSyntaxIssues rt content @ post,
                crMetrics = calculateMetricsReview content (split (CHR 0x0A) content)
                              (pre @ thrownSyntaxIssues rt content @ post)\<rparr>"
    by (rule codeReview.equality) (simp_all add: m c1)
  from r0 r1 show ?thesis by (intro exI [where x = pre] exI [where x = post] conjI)
qed


lemma result_equal:
  assumes "lintingIssues rt content (split (CHR 0x0A) content) (fileExtensionOf fileName)
             = lintingIssues (rt\<lparr>acornParse := \<lambda>_. None\<rparr>) content (split (CHR 0x0A) content)
                 (fileExtensionOf fileName)"
  shows "analyzeCodeMultiDimensional rt content fileName
           = analyzeCodeMultiDimensional (rt\<lparr>acornParse := \<lambda>_. None\<rparr>) content fileName"
  by (simp add: analyze_structure Let_def other_passes_ignore_parser assms)

lemma multi_throw:
  assumes "acornParse rt content = Some e"
    and "fileExtensionOf fileName \<in> set [''js'', ''jsx'', ''ts'', ''tsx'']"
  shows "\<exists>X. issues (linting (analyzeCodeMultiDimensional rt content fileName))
              = issues (linting (analyzeCodeMultiDimensional (rt\<lparr>acornParse := \<lambda>_. None\<rparr>)
                                   content fileName)) @ X
         \<and> (err_loc e = None \<longrightarrow> X = []
              \<and> analyzeCodeMultiDimensional rt content fileName
                  = analyzeCodeMultiDimensional (rt\<lparr>acornParse := \<lambda>_. None\<rparr>) content fileName)
         \<and> (\<forall>loc. err_loc e = Some loc \<longrightarrow>
                (\<exists>i. X = [i] \<and> severity i = Error \<and> line i = pos_line loc))"
proof -
  from lintingIssues_throw [OF assms, where lines = "split (CHR 0x0A) content"]
  obtain X where all:
    "lintingIssues rt content (split (CHR 0x0A) content) (fileExtensionOf fileName)
       = lintingIssues (rt\<lparr>acornParse := \<lambda>_. None\<rparr>) content (split (CHR 0x0A) content)
           (fileExtensionOf fileName) @ X
     \<and> (err_loc e = None \<longrightarrow> X = [])
     \<and> (\<forall>loc. err_loc e = Some loc \<longrightarrow>
            (\<exists>i. X = [i] \<and> severity i = Error \<and> line i = pos_line loc))" ..
  have l: "issues (linting (analyzeCodeMultiDimensional rt content fileName))
              = issues (linting (analyzeCodeMultiDimensional (rt\<lparr>acornParse := \<lambda>_. None\<rparr>)
                                   content fileName)) @ X"
    using all [THEN conjunct1] by (simp add: analyze_structure Let_def)
  have eq: "analyzeCodeMultiDimensional rt content fileName
                  = analyzeCodeMultiDimensional (rt\<lparr>acornParse := \<lambda>_. None\<rparr>) content fileName"
    if "err_loc e = None"
    using all that by (intro result_equal) simp
  show ?thesis
    using l eq all [THEN conjunct2] by (intro exI [where x = X]) simp
qed

lemma multi_others:
  "security (analyzeCodeMultiDimensional (rt\<lparr>acornParse := f\<rparr>) content fileName)
     = security (analyzeCodeMultiDimensional rt content fileName)"
  "architecture (analyzeCodeMultiDimensional (rt\<lparr>acornParse := f\<rparr>) content fileName)
     = architecture (analyzeCodeMultiDimensional rt content fileName)"
  "quality (analyzeCodeMultiDimensional (rt\<lparr>acornParse := f\<rparr>) content fileName)
     = quality (analyzeCodeMultiDimensional rt content fileName)"
  "documentation (analyzeCodeMultiDimensional (rt\<lparr>acornParse := f\<rparr>) content fileName)
     = documentation (analyzeCodeMultiDimensional rt content fileName)"
  "metrics (analyzeCodeMultiDimensional (rt\<lparr>acornParse := f\<rparr>) content fileName)
     = metrics (analyzeCodeMultiDimensional rt content fileName)"
  by (simp_all add: analyze_structure Let_def other_passes_ignore_parser)

lemma single_throw:
  assumes "acornParse rt content = Some e"
    and "fileExtensionOf fileName \<in> set [''js'', ''jsx'', ''mjs'', ''cjs'', ''ts'', ''tsx'']"
  shows "\<exists>X pre post.
           crIssues (analyzeCode (rt\<lparr>acornParse := \<lambda>_. None\<rparr>) content fileName) = pre @ post
         \<and> crIssues (analyzeCode rt content fileName) = pre @ X @ post
         \<and> (err_loc e = None \<longrightarrow> X = []
              \<and> analyzeCode rt content fileName
                  = analyzeCode (rt\<lparr>acornParse := \<lambda>_. None\<rparr>) content fileName)
         \<and> (\<forall>loc. err_loc e = Some loc \<longrightarrow>
                (\<exists>i. X = [i] \<and> severity i = Error \<and> line i = pos_line loc))
         \<and> crTotalLines (crMetrics (analyzeCode rt content fileName))
             = crTotalLines (crMetrics (analyzeCode (rt\<lparr>acornParse := \<lambda>_. None\<rparr>) content fileName))
         \<and> crCodeLines (crMetrics (analyzeCode rt content fileName))
             = crCodeLines (crMetrics (analyzeCode (rt\<lparr>acornParse := \<lambda>_. None\<rparr>) content fileName))
         \<and> crCommentLines (crMetrics (analyzeCode rt content fileName))
             = crCommentLines (crMetrics (analyzeCode (rt\<lparr>acornParse := \<lambda>_. None\<rparr>) content fileName))
         \<and> errorCount (crMetrics (analyzeCode rt content fileName))
             = errorCount (crMetrics (analyzeCode (rt\<lparr>acornParse := \<lambda>_. None\<rparr>) content fileName))
               + int (length X)"
proof -
  from analyzeCode_throw [OF assms(2), where rt = rt and content = content]
  obtain pre post where
    r: "analyzeCode (rt\<lparr>acornParse := \<lambda>_. None\<rparr>) content fileName
             = \<lparr>crIssues = pre @ post,
                crMetrics = calculateMetricsReview content (split (CHR 0x0A) content) (pre @ post)\<rparr>
         \<and> analyzeCode rt content fileName
             = \<lparr>crIssues = pre @ thrownSyntaxIssues rt content @ post,
                crMetrics = calculateMetricsReview content (split (CHR 0x0A) content)
                              (pre @ thrownSyntaxIssues rt content @ post)\<rparr>"
    by (elim exE)
  note n = thrownSyntaxIssues_cases(1) [OF assms(1)]
  note s = thrownSyntaxIssues_cases(2) [OF assms(1)]
  have errs: "int (length (filter (\<lambda>i. severity i = Error) (thrownSyntaxIssues rt content)))
                = int (length (thrownSyntaxIssues rt content))"
    using n s by (cases "err_loc e") auto
  show ?thesis
    using r n s errs
    by (intro exI [where x = "thrownSyntaxIssues rt content"] exI [where x = pre]
          exI [where x = post])
       (simp add: metrics_insert)
qed

text \<open>No pass but the two parsers' \<open>catch\<close> blocks emits an issue of severity error.\<close>

lemma if_all_list:
  "(c \<Longrightarrow> list_all P xs) \<Longrightarrow> (\<not> c \<Longrightarrow> list_all P ys) \<Longrightarrow> list_all P (if c then xs else ys)"
  by simp

lemma append_all: "list_all P xs \<Longrightarrow> list_all P ys \<Longrightarrow> list_all P (xs @ ys)"
  by simp

lemma lintJavaScript_no_error:
  assumes "list_all notError (issues (linting a))"
  shows "list_all notError
           (issues (linting (lintJavaScript (rt\<lparr>acornParse := \<lambda>_. None\<rparr>) content lines a)))"
  unfolding lintJavaScript_def Let_def using assms
  by (simp add: pushLinting_def) (intro conjI forEachLine_all; simp add: notError_def)

lemma lintingIssues_no_error:
  "list_all notError (lintingIssues (rt\<lparr>acornParse := \<lambda>_. None\<rparr>) content lines ext)"
  unfolding lintingIssues_def performLintingAnalysis_def lintPython_def lintCSS_def Let_def
  by (intro if_all push_all forEachLine_all initial_all lintJavaScript_no_error;
      simp add: notError_def)

lemma securityIssues_no_error:
  "list_all notError (securityIssues rt content lines ext)"
  unfolding securityIssues_def performSecurityAnalysis_def securityCheckJavaScript_def
    securityCheckPython_def Let_def
  by (intro if_all push_all forEachLine_all initial_all;
      simp add: notError_def list_all_iff)

lemma architectureIssues_no_error:
  "list_all notError (architectureIssues rt content lines ext)"
  unfolding architectureIssues_def performArchitectureAnalysis_def Let_def
  by (intro if_all push_all forEachLine_all initial_all; simp add: notError_def)

lemma duplicateBlocks_no_error: "list_all notError (duplicateBlocks lines)"
proof -
  have "list_all notError (snd st)
          \<Longrightarrow> list_all notError (snd (fold (duplicateStep lines) ns st))" for ns st
    by (induction ns arbitrary: st) (simp_all add: duplicateStep_def Let_def notError_def)
  then show ?thesis by (simp add: duplicateBlocks_def)
qed

lemma longFunctions_no_error: "list_all notError (longFunctions rt lines)"
proof -
  have "list_all notError (snd (snd st))
          \<Longrightarrow> list_all notError (snd (snd (fold (longFunctionStep rt) ils st)))" for ils st
    by (induction ils arbitrary: st) (simp_all add: longFunctionStep_def Let_def notError_def)
  then show ?thesis by (simp add: longFunctions_def)
qed

lemma qualityIssues_no_error:
  "list_all notError (qualityIssues rt content lines ext)"
  unfolding qualityIssues_def performQualityAnalysis_def Let_def
  by (intro if_all push_all forEachLine_all initial_all duplicateBlocks_no_error
        longFunctions_no_error;
      simp add: notError_def)

lemma documentationIssues_no_error:
  "list_all notError (documentationIssues rt content lines ext)"
  unfolding documentationIssues_def performDocumentationAnalysis_def Let_def
  by (intro if_all push_all forEachLine_all initial_all; simp add: notError_def)

lemma multi_no_error:
  "list_all notError
     (allIssues (analyzeCodeMultiDimensional (rt\<lparr>acornParse := \<lambda>_. None\<rparr>) content fileName))"
  by (simp add: analyze_structure Let_def lintingIssues_no_error securityIssues_no_error
      architectureIssues_no_error qualityIssues_no_error documentationIssues_no_error)

lemma analyzeJavaScript_no_error:
  assumes "list_all notError iss"
  shows "list_all notError
           (analyzeJavaScript (rt\<lparr>acornParse := \<lambda>_. None\<rparr>) content lines iss name)"
  unfolding analyzeJavaScript_def syntaxCheck_def unusedVariables_def Let_def using assms
  by simp (intro conjI forEachLine_all; simp add: notError_def list_all_iff)

lemma general_checks_no_error:
  "list_all notError
     (checkEmptyFile content (checkLongLines lines (checkFileSize content
        (checkTrailingWhitespace lines []))))"
  unfolding checkTrailingWhitespace_def checkFileSize_def checkLongLines_def checkEmptyFile_def
  by (intro append_all if_all_list forEachLine_all; simp add: notError_def)

lemma single_no_error:
  assumes "fileExtensionOf fileName \<in> set [''js'', ''jsx'', ''mjs'', ''cjs'', ''ts'', ''tsx'']"
  shows "list_all notError
           (crIssues (analyzeCode (rt\<lparr>acornParse := \<lambda>_. None\<rparr>) content fileName))"
proof -
  have js: "fileExtensionOf fileName \<in> set [''js'', ''jsx'', ''mjs'', ''cjs'']
          \<or> fileExtensionOf fileName \<in> set [''ts'', ''tsx'']"
    using assms by auto
  have "crIssues (analyzeCode (rt\<lparr>acornParse := \<lambda>_. None\<rparr>) content fileName)
          = analyzeJavaScript (rt\<lparr>acornParse := \<lambda>_. None\<rparr>) content (split (CHR 0x0A) content)
              (checkEmptyFile content (checkLongLines (split (CHR 0x0A) content)
                 (checkFileSize content (checkTrailingWhitespace (split (CHR 0x0A) content) []))))
              fileName"
    using js unfolding analyzeCode_def Let_def fileExtensionOf_def
    by (simp only: if_True codeReview.simps)
  then show ?thesis
    by (simp only: analyzeJavaScript_no_error [OF general_checks_no_error])
qed

text \<open>
  Claim C8, as the code has it. A throw of \<open>acorn.parse\<close> never aborts either analyzer,
  and what it leaves in the result depends on the error: an error that carries a location
  adds exactly one issue of severity error, at the line of that location; an error
  without a location (the \<open>catch\<close> block tests \<open>error.loc\<close>) adds nothing, and the
  result is the one of a successful parse. In both cases every other issue and every
  metric that does not count errors is as if the parse had succeeded: in the
  multi-dimensional analyzer the new issue ends the linting list and the other dimensions
  and the metrics are untouched; in the single-pass analyzer it stands between the
  issues found before and after the syntax check, and the error count grows by one.
\<close>

theorem syntax_error_recovery:
  assumes "acornParse rt content = Some e"
  shows
    "(fileExtensionOf fileName \<in> set [''js'', ''jsx'', ''ts'', ''tsx''] \<longrightarrow>
        (\<exists>X. issues (linting (analyzeCodeMultiDimensional rt content fileName))
              = issues (linting (analyzeCodeMultiDimensional (rt\<lparr>acornParse := \<lambda>_. None\<rparr>)
                                   content fileName)) @ X
         \<and> (err_loc e = None \<longrightarrow> X = []
              \<and> analyzeCodeMultiDimensional rt content fileName
                  = analyzeCodeMultiDimensional (rt\<lparr>acornParse := \<lambda>_. None\<rparr>) content fileName)
         \<and> (\<forall>loc. err_loc e = Some loc \<longrightarrow>
                (\<exists>i. X = [i] \<and> severity i = Error \<and> line i = pos_line loc))))
     \<and> security (analyzeCodeMultiDimensional rt content fileName)
         = security (analyzeCodeMultiDimensional (rt\<lparr>acornParse := \<lambda>_. None\<rparr>) content fileName)
     \<and> architecture (analyzeCodeMultiDimensional rt content fileName)
         = architecture (analyzeCodeMultiDimensional (rt\<lparr>acornParse := \<lambda>_. None\<rparr>) content fileName)
     \<and> quality (analyzeCodeMultiDimensional rt content fileName)
         = quality (analyzeCodeMultiDimensional (rt\<lparr>acornParse := \<lambda>_. None\<rparr>) content fileName)
     \<and> documentation (analyzeCodeMultiDimensional rt content fileName)
         = documentation (analyzeCodeMultiDimensional (rt\<lparr>acornParse := \<lambda>_. None\<rparr>) content fileName)
     \<and> metrics (analyzeCodeMultiDimensional rt content fileName)
         = metrics (analyzeCodeMultiDimensional (rt\<lparr>acornParse := \<lambda>_. None\<rparr>) content fileName)
     \<and> (fileExtensionOf fileName \<in> set [''js'', ''jsx'', ''mjs'', ''cjs'', ''ts'', ''tsx''] \<longrightarrow>
        (\<exists>X pre post.
           crIssues (analyzeCode (rt\<lparr>acornParse := \<lambda>_. None\<rparr>) content fileName) = pre @ post
         \<and> crIssues (analyzeCode rt content fileName) = pre @ X @ post
         \<and> (err_loc e = None \<longrightarrow> X = []
              \<and> analyzeCode rt content fileName
                  = analyzeCode (rt\<lparr>acornParse := \<lambda>_. None\<rparr>) content fileName)
         \<and> (\<forall>loc. err_loc e = Some loc \<longrightarrow>
                (\<exists>i. X = [i] \<and> severity i = Error \<and> line i = pos_line loc))
         \<and> crTotalLines (crMetrics (analyzeCode rt content fileName))
             = crTotalLines (crMetrics (analyzeCode (rt\<lparr>acornParse := \<lambda>_. None\<rparr>) content fileName))
         \<and> crCodeLines (crMetrics (analyzeCode rt content fileName))
             = crCodeLines (crMetrics (analyzeCode (rt\<lparr>acornParse := \<lambda>_. None\<rparr>) content fileName))
         \<and> crCommentLines (crMetrics (analyzeCode rt content fileName))
             = crCommentLines (crMetrics (analyzeCode (rt\<lparr>acornParse := \<lambda>_. None\<rparr>) content fileName))
         \<and> errorCount (crMetrics (analyzeCode rt content fileName))
             = errorCount (crMetrics (analyzeCode (rt\<lparr>acornParse := \<lambda>_. None\<rparr>) content fileName))
               + int (length X)))"
  using multi_throw [OF assms, where fileName = fileName]
    single_throw [OF assms, where fileName = fileName]
    multi_others [where rt = rt and f = "\<lambda>_. None" and content = content and fileName = fileName]
  by (intro conjI impI) simp_all

theorem syntax_error_recovery_witness:
  "(\<exists>i. severity i = Error \<and> line i = 2
        \<and> issues (linting (analyzeCodeMultiDimensional rtSyntaxError brokenJs ''app.js''))
            = issues (linting (analyzeCodeMultiDimensional
                 (rtSyntaxError\<lparr>acornParse := \<lambda>_. None\<rparr>) brokenJs ''app.js'')) @ [i])
   \<and> (\<exists>i pre post. severity i = Error \<and> line i = 2
        \<and> crIssues (analyzeCode (rtSyntaxError\<lparr>acornParse := \<lambda>_. None\<rparr>) brokenJs ''app.js'')
            = pre @ post
        \<and> crIssues (analyzeCode rtSyntaxError brokenJs ''app.js'') = pre @ [i] @ post)
   \<and> analyzeCodeMultiDimensional rtOverflow deepJs ''app.js''
       = analyzeCodeMultiDimensional (rtOverflow\<lparr>acornParse := \<lambda>_. None\<rparr>) deepJs ''app.js''
   \<and> analyzeCode rtOverflow deepJs ''app.js''
       = analyzeCode (rtOverflow\<lparr>acornParse := \<lambda>_. None\<rparr>) deepJs ''app.js''"
proof -
  have located: "acornParse rtSyntaxError brokenJs
      = Some \<lparr>err_message = ''Unexpected token (2:8)'',
              err_loc = Some \<lparr>pos_line = 2, pos_column = 8\<rparr>\<rparr>"
    by (simp add: rtSyntaxError_def)
  have unlocated: "acornParse rtOverflow deepJs
      = Some \<lparr>err_message = ''Maximum call stack size exceeded'', err_loc = None\<rparr>"
    by (simp add: rtOverflow_def)
  note a = syntax_error_recovery [OF located, where fileName = "''app.js''"]
  note b = syntax_error_recovery [OF unlocated, where fileName = "''app.js''"]
  have js: "fileExtensionOf ''app.js'' \<in> set [''js'', ''jsx'', ''ts'', ''tsx'']"
    and js': "fileExtensionOf ''app.js'' \<in> set [''js'', ''jsx'', ''mjs'', ''cjs'', ''ts'', ''tsx'']"
    by (simp_all add: app_js_extension)
  from a [THEN conjunct1, THEN mp, OF js] obtain X
    where mX: "issues (linting (analyzeCodeMultiDimensional rtSyntaxError brokenJs ''app.js''))
            = issues (linting (analyzeCodeMultiDimensional
                 (rtSyntaxError\<lparr>acornParse := \<lambda>_. None\<rparr>) brokenJs ''app.js'')) @ X"
      and mi: "\<exists>i. X = [i] \<and> severity i = Error \<and> line i = 2"
    by (elim exE conjE) simp
  from mi obtain i where "X = [i]" "severity i = Error" "line i = 2"
    by (elim exE conjE)
  with mX have m: "\<exists>i. severity i = Error \<and> line i = 2
        \<and> issues (linting (analyzeCodeMultiDimensional rtSyntaxError brokenJs ''app.js''))
            = issues (linting (analyzeCodeMultiDimensional
                 (rtSyntaxError\<lparr>acornParse := \<lambda>_. None\<rparr>) brokenJs ''app.js'')) @ [i]"
    by (intro exI [where x = i]) simp
  from a [THEN conjunct2, THEN conjunct2, THEN conjunct2, THEN conjunct2, THEN conjunct2,
          THEN conjunct2, THEN mp, OF js'] obtain Y pre post
    where s0': "crIssues (analyzeCode (rtSyntaxError\<lparr>acornParse := \<lambda>_. None\<rparr>) brokenJs ''app.js'')
            = pre @ post"
      and sY: "crIssues (analyzeCode rtSyntaxError brokenJs ''app.js'') = pre @ Y @ post"
      and sj: "\<exists>j. Y = [j] \<and> severity j = Error \<and> line j = 2"
    by (elim exE conjE) simp
  from sj obtain j where j: "Y = [j]" "severity j = Error" "line j = 2"
    by (elim exE conjE)
  have "severity j = Error \<and> line j = 2
        \<and> crIssues (analyzeCode (rtSyntaxError\<lparr>acornParse := \<lambda>_. None\<rparr>) brokenJs ''app.js'')
            = pre @ post
        \<and> crIssues (analyzeCode rtSyntaxError brokenJs ''app.js'') = pre @ [j] @ post"
    using s0' sY j by simp
  then have s: "\<exists>i pre post. severity i = Error \<and> line i = 2
        \<and> crIssues (analyzeCode (rtSyntaxError\<lparr>acornParse := \<lambda>_. None\<rparr>) brokenJs ''app.js'')
            = pre @ post
        \<and> crIssues (analyzeCode rtSyntaxError brokenJs ''app.js'') = pre @ [i] @ post"
    by (intro exI)
  have m0: "analyzeCodeMultiDimensional rtOverflow deepJs ''app.js''
       = analyzeCodeMultiDimensional (rtOverflow\<lparr>acornParse := \<lambda>_. None\<rparr>) deepJs ''app.js''"
    using b [THEN conjunct1, THEN mp, OF js]
    by (elim exE conjE) simp
  have s0: "analyzeCode rtOverflow deepJs ''app.js''
       = analyzeCode (rtOverflow\<lparr>acornParse := \<lambda>_. None\<rparr>) deepJs ''app.js''"
    using b [THEN conjunct2, THEN conjunct2, THEN conjunct2, THEN conjunct2, THEN conjunct2,
             THEN conjunct2, THEN mp, OF js']
    by (elim exE conjE) simp
  from m s m0 s0 show ?thesis by (intro conjI)
qed

text \<open>
  The claim as stated fails on a throw without a location: a script nested so deep that
  the parser exhausts the call stack makes \<open>acorn.parse\<close> throw a \<open>RangeError\<close>, which
  has no \<open>loc\<close>. The \<open>catch\<close> block then pushes nothing: no issue of severity error is in
  the result of either analyzer.
\<close>

theorem unlocated_throw_leaves_no_issue:
  "acornParse rtOverflow deepJs
     = Some \<lparr>err_message = ''Maximum call stack size exceeded'', err_loc = None\<rparr>
   \<and> list_all (\<lambda>i. severity i \<noteq> Error)
       (allIssues (analyzeCodeMultiDimensional rtOverflow deepJs ''app.js''))
   \<and> list_all (\<lambda>i. severity i \<noteq> Error)
       (crIssues (analyzeCode rtOverflow deepJs ''app.js''))"
proof -
  have unlocated: "acornParse rtOverflow deepJs
      = Some \<lparr>err_message = ''Maximum call stack size exceeded'', err_loc = None\<rparr>"
    by (simp add: rtOverflow_def)
  have js: "fileExtensionOf ''app.js'' \<in> set [''js'', ''jsx'', ''ts'', ''tsx'']"
    and js': "fileExtensionOf ''app.js'' \<in> set [''js'', ''jsx'', ''mjs'', ''cjs'', ''ts'', ''tsx'']"
    by (simp_all add: app_js_extension)
  have m0: "analyzeCodeMultiDimensional rtOverflow deepJs ''app.js''
       = analyzeCodeMultiDimensional (rtOverflow\<lparr>acornParse := \<lambda>_. None\<rparr>) deepJs ''app.js''"
    using multi_throw [OF unlocated js] by (elim exE conjE) simp
  have s0: "analyzeCode rtOverflow deepJs ''app.js''
       = analyzeCode (rtOverflow\<lparr>acornParse := \<lambda>_. None\<rparr>) deepJs ''app.js''"
    using single_throw [OF unlocated js'] by (elim exE conjE) simp
  have "list_all notError (allIssues (analyzeCodeMultiDimensional rtOverflow deepJs ''app.js''))"
    unfolding m0 by (rule multi_no_error)
  moreover have "list_all notError (crIssues (analyzeCode rtOverflow deepJs ''app.js''))"
    unfolding s0 by (rule single_no_error [OF js'])
  ultimately show ?thesis using unlocated by (simp add: notError_def [abs_def])
qed

end
